theory Spec2Isabelle
  imports Complex_Main "HOL-Library.Word"
begin

section \<open>The patient page of Nidaan: visit submission, status polling, level meter\<close>

text \<open>
  The development embeds three functions of \<^verbatim>\<open>apps/web/app/patient/page.tsx\<close>:
  \<^verbatim>\<open>pollProcessingStatus\<close>, \<^verbatim>\<open>uploadAndProcess\<close> and the sampling closure
  \<^verbatim>\<open>updateLevel\<close> of \<^verbatim>\<open>startAudioVisualization\<close>.

  The functions are \<^verbatim>\<open>async\<close> closures of a React component. They return no value; what
  they do is (a) call the setters of the component's state and (b) call the outside world:
  the backend client of \<^verbatim>\<open>@/lib/api\<close>, timers and the console. The component state is
  a record that is passed in and returned; the calls to the outside world are appended, in
  program order, to the field \<open>trace\<close> of that record. The backend client is not part of the
  sources at hand, so its five operations are parameters (the record \<open>api\<close>): each returns
  either the value thrown (\<open>Inl\<close>) or its result (\<open>Inr\<close>). A result that lacks the
  property the page reads from it makes that read throw inside the same \<^verbatim>\<open>try\<close>, so it
  counts as a throw of the operation.
\<close>

subsection \<open>Data\<close>

text \<open>
  The value of the state variable \<^verbatim>\<open>voiceState\<close>. Its type \<^verbatim>\<open>VoiceState\<close> is declared in
  \<^verbatim>\<open>@/components/ai-voice-orb\<close>; the constructors below are the string literals the page
  assigns to it or compares it with.
\<close>

datatype VoiceState = idle | listening | processing | speaking | error

text \<open>A \<^verbatim>\<open>Blob\<close> is its bytes; \<^verbatim>\<open>null\<close> is \<open>None\<close> of \<open>blob option\<close>.\<close>

type_synonym blob = "8 word list"

text \<open>
  A value caught by \<^verbatim>\<open>catch (error)\<close>; the handlers declare it \<^verbatim>\<open>any\<close>. The only thing
  the page reads from it is \<^verbatim>\<open>error.message\<close>. \<open>Nullish\<close> is \<^verbatim>\<open>null\<close> or
  \<^verbatim>\<open>undefined\<close>, on which that read throws a \<^verbatim>\<open>TypeError\<close>. \<open>Thrown m\<close> is any other
  value, with \<open>m\<close> what the read gives: a string, or \<^verbatim>\<open>undefined\<close> (\<open>None\<close>).
\<close>

datatype thrown = Nullish | Thrown "string option"

record user =
  user_id :: string
  clinic_id :: string

record visit_data =
  patient_id :: string
  clinic_id :: string
  language_code :: string
  audio_duration_seconds :: nat

record visit =
  visit_id :: string

record upload_data =
  upload_url :: string
  audio_s3_key :: string

record status_response =
  status :: string

text \<open>
  The operations of \<^verbatim>\<open>audioAPI\<close> and \<^verbatim>\<open>uploadToS3\<close>. The status endpoint is asked many
  times for one visit and may answer differently each time: its extra argument is the
  number of the poll attempt (the loop variable \<^verbatim>\<open>i\<close>).
\<close>

record api =
  createVisit :: "visit_data \<Rightarrow> thrown + visit"
  getUploadUrl :: "string \<Rightarrow> string \<Rightarrow> thrown + upload_data"
  uploadToS3 :: "string \<Rightarrow> blob \<Rightarrow> thrown + unit"
  processAudio :: "string \<Rightarrow> string \<Rightarrow> thrown + unit"
  getProcessingStatus :: "string \<Rightarrow> nat \<Rightarrow> thrown + status_response"

text \<open>
  The calls that leave the component. \<open>Sleep ms\<close> is
  \<^verbatim>\<open>await new Promise(resolve => setTimeout(resolve, ms))\<close>, a timer the function waits for;
  \<open>SetTimeout ms\<close> is a timer that is started and not waited for (its callback runs after
  the function has returned); \<open>ConsoleError label e\<close> is \<^verbatim>\<open>console.error(label, e)\<close>;
  \<open>RouterPush path\<close> is \<^verbatim>\<open>router.push(path)\<close>. \<open>RejectsTypeError\<close> is the end of a run
  whose promise rejects, with the \<^verbatim>\<open>TypeError\<close> of a property read on \<^verbatim>\<open>null\<close> or
  \<^verbatim>\<open>undefined\<close>: the caller \<^verbatim>\<open>handleSubmit\<close> neither awaits nor catches, so the
  rejection leaves the component unhandled.
\<close>

datatype call =
    CreateVisit visit_data
  | GetUploadUrl string string
  | UploadToS3 string blob
  | ProcessAudio string string
  | GetProcessingStatus string
  | Sleep nat
  | SetTimeout nat
  | ConsoleError string thrown
  | RouterPush string
  | RejectsTypeError

text \<open>The state of the component that the two functions write, and the trace.\<close>

record page_state =
  voiceState :: VoiceState
  processingStage :: string
  statusMessage :: string
  visitId :: "string option"
  trace :: "call list"

text \<open>What the functions read from the stores \<^verbatim>\<open>useAuthStore\<close> and \<^verbatim>\<open>useAudioStore\<close>.\<close>

record stores =
  user_of :: "user option"
  audioBlob :: "blob option"
  duration :: nat
  language :: string

definition emit :: "call \<Rightarrow> page_state \<Rightarrow> page_state" where
  "emit c s = s\<lparr>trace := trace s @ [c]\<rparr>"

subsection \<open>\<^verbatim>\<open>pollProcessingStatus\<close>\<close>

text \<open>
  \<^verbatim>\<open>
  const pollProcessingStatus = async (visitId: string, retries = 30) => {
    for (let i = 0; i < retries; i++) {
      try {
        const status = await audioAPI.getProcessingStatus(visitId)
        switch (status.status) {
          case 'TRANSCRIBING': setProcessingStage('Transcribing your voice...'); break
          case 'ANALYZING':    setProcessingStage('AI analyzing symptoms...'); break
          case 'COMPLETED':
            setVoiceState('speaking'); setProcessingStage('Complete!')
            setStatusMessage('Your doctor will review this shortly')
            setTimeout(() => { ... }, 4000)
            return
          case 'FAILED':
            setVoiceState('error')
            setStatusMessage('Processing failed. Please try again.')
            return
        }
        await new Promise(resolve => setTimeout(resolve, 2000))
      } catch (error) {
        console.error('Error polling status:', error)
      }
    }
    setStatusMessage('Processing taking longer than expected.')
    setVoiceState('idle')
  }
  \<close>
  \<open>pollLoop\<close> is the \<^verbatim>\<open>for\<close> loop from the value \<open>i\<close> of its counter on, followed by the
  two statements after it. The bound \<^verbatim>\<open>retries\<close> is a JavaScript number, here an integer
  of any sign; the counter starts at 0 and is only incremented.
\<close>

function pollLoop :: "api \<Rightarrow> string \<Rightarrow> int \<Rightarrow> nat \<Rightarrow> page_state \<Rightarrow> page_state" where
  "pollLoop env vid retries i s =
     (if int i < retries then
        (let s1 = emit (GetProcessingStatus vid) s in
         case getProcessingStatus env vid i of
           Inl e \<Rightarrow>
             pollLoop env vid retries (Suc i) (emit (ConsoleError ''Error polling status:'' e) s1)
         | Inr r \<Rightarrow>
             if status r = ''TRANSCRIBING'' then
               pollLoop env vid retries (Suc i)
                 (emit (Sleep 2000) (s1\<lparr>processingStage := ''Transcribing your voice...''\<rparr>))
             else if status r = ''ANALYZING'' then
               pollLoop env vid retries (Suc i)
                 (emit (Sleep 2000) (s1\<lparr>processingStage := ''AI analyzing symptoms...''\<rparr>))
             else if status r = ''COMPLETED'' then
               emit (SetTimeout 4000)
                 (s1\<lparr>voiceState := speaking,
                     processingStage := ''Complete!'',
                     statusMessage := ''Your doctor will review this shortly''\<rparr>)
             else if status r = ''FAILED'' then
               s1\<lparr>voiceState := error,
                   statusMessage := ''Processing failed. Please try again.''\<rparr>
             else
               pollLoop env vid retries (Suc i) (emit (Sleep 2000) s1))
      else
        s\<lparr>statusMessage := ''Processing taking longer than expected.'',
           voiceState := idle\<rparr>)"
  by pat_completeness auto
termination
  by (relation "measure (\<lambda>(env, vid, retries, i, s). nat (retries - int i))") auto

text \<open>
  The parameter \<^verbatim>\<open>retries = 30\<close>: a caller that passes nothing (\<open>None\<close>) gets 30 attempts.
\<close>

definition maxAttempts :: "int option \<Rightarrow> int" where
  "maxAttempts retries = (case retries of None \<Rightarrow> 30 | Some n \<Rightarrow> n)"

definition pollProcessingStatus :: "api \<Rightarrow> string \<Rightarrow> int option \<Rightarrow> page_state \<Rightarrow> page_state" where
  "pollProcessingStatus env vid retries s = pollLoop env vid (maxAttempts retries) 0 s"

subsection \<open>\<^verbatim>\<open>uploadAndProcess\<close>\<close>

text \<open>
  \<^verbatim>\<open>x || d\<close> for \<open>x\<close> a string or \<^verbatim>\<open>undefined\<close>: the empty string is falsy, like
  \<^verbatim>\<open>undefined\<close>.
\<close>

definition or_default :: "string option \<Rightarrow> string \<Rightarrow> string" where
  "or_default x d = (case x of None \<Rightarrow> d | Some v \<Rightarrow> if v = [] then d else v)"

text \<open>
  The handler of the \<^verbatim>\<open>try\<close> block:
  \<^verbatim>\<open>
  } catch (error: any) {
    console.error('Upload error:', error)
    setVoiceState('error')
    setStatusMessage(error.message || 'Upload failed')
  }
  \<close>
  On \<^verbatim>\<open>null\<close> or \<^verbatim>\<open>undefined\<close> the read \<^verbatim>\<open>error.message\<close> throws inside the handler,
  after the first two statements: \<^verbatim>\<open>setStatusMessage\<close> is not called and the promise of
  \<^verbatim>\<open>uploadAndProcess\<close> rejects.
\<close>

definition catchUpload :: "thrown \<Rightarrow> page_state \<Rightarrow> page_state" where
  "catchUpload e s =
     (let s1 = (emit (ConsoleError ''Upload error:'' e) s)\<lparr>voiceState := error\<rparr>
      in case e of
           Nullish \<Rightarrow> emit RejectsTypeError s1
         | Thrown m \<Rightarrow> s1\<lparr>statusMessage := or_default m ''Upload failed''\<rparr>)"

text \<open>
  \<^verbatim>\<open>
  const uploadAndProcess = async () => {
    if (!audioBlob) return
    setVoiceState('processing')
    setProcessingStage('Creating visit record...')
    try {
      const visitData = {
        patient_id: user?.user_id || 'DEMO_PATIENT',
        clinic_id: user?.clinic_id || 'CLINIC_DEMO',
        language_code: language,
        audio_duration_seconds: duration,
      }
      const visit = await audioAPI.createVisit(visitData)
      setVisitId(visit.visit_id)
      setProcessingStage('Uploading audio...')
      const uploadData = await audioAPI.getUploadUrl(visit.visit_id, 'webm')
      await uploadToS3(uploadData.upload_url, audioBlob)
      setProcessingStage('Starting AI analysis...')
      await audioAPI.processAudio(visit.visit_id, uploadData.audio_s3_key)
      await pollProcessingStatus(visit.visit_id)
    } catch (error: any) { ... }
  }
  \<close>
  A \<^verbatim>\<open>Blob\<close> object is truthy whatever its size, so \<^verbatim>\<open>!audioBlob\<close> holds for
  \<^verbatim>\<open>null\<close> only.
\<close>

definition visitData_of :: "stores \<Rightarrow> visit_data" where
  "visitData_of st =
     \<lparr>patient_id = or_default (map_option user_id (user_of st)) ''DEMO_PATIENT'',
      clinic_id = or_default (map_option user.clinic_id (user_of st)) ''CLINIC_DEMO'',
      language_code = language st,
      audio_duration_seconds = duration st\<rparr>"

definition uploadAndProcess :: "api \<Rightarrow> stores \<Rightarrow> page_state \<Rightarrow> page_state" where
  "uploadAndProcess env st s =
     (case audioBlob st of
        None \<Rightarrow> s
      | Some b \<Rightarrow>
          (let s1 = s\<lparr>voiceState := processing, processingStage := ''Creating visit record...''\<rparr>;
               visitData = visitData_of st;
               s2 = emit (CreateVisit visitData) s1
           in (case createVisit env visitData of
                 Inl e \<Rightarrow> catchUpload e s2
               | Inr v \<Rightarrow>
                   (let s3 = s2\<lparr>visitId := Some (visit_id v),
                                 processingStage := ''Uploading audio...''\<rparr>;
                        s4 = emit (GetUploadUrl (visit_id v) ''webm'') s3
                    in (case getUploadUrl env (visit_id v) ''webm'' of
                          Inl e \<Rightarrow> catchUpload e s4
                        | Inr u \<Rightarrow>
                            (let s5 = emit (UploadToS3 (upload_url u) b) s4
                             in (case uploadToS3 env (upload_url u) b of
                                   Inl e \<Rightarrow> catchUpload e s5
                                 | Inr _ \<Rightarrow>
                                     (let s6 = emit (ProcessAudio (visit_id v) (audio_s3_key u))
                                                (s5\<lparr>processingStage := ''Starting AI analysis...''\<rparr>)
                                      in (case processAudio env (visit_id v) (audio_s3_key u) of
                                            Inl e \<Rightarrow> catchUpload e s6
                                          | Inr _ \<Rightarrow>
                                              pollProcessingStatus env (visit_id v) None s6)))))))))"

text \<open>
  The handler of the log-out button, which the header shows at all times:
  \<^verbatim>\<open>
  const handleLogout = () => {
    clearAuth()
    router.push('/login')
  }
  \<close>
  \<^verbatim>\<open>clearAuth\<close> empties the user of the auth store; the navigation takes the page down.
\<close>

definition handleLogout :: "stores \<times> page_state \<Rightarrow> stores \<times> page_state" where
  "handleLogout = (\<lambda>(st, s). (st\<lparr>user_of := None\<rparr>, emit (RouterPush ''/login'') s))"

text \<open>The language codes of the table \<^verbatim>\<open>LANGUAGES\<close>, which the language menu offers.\<close>

definition LANGUAGES :: "string list" where
  "LANGUAGES = [''hi-IN'', ''ta-IN'', ''te-IN'', ''mr-IN'', ''bn-IN'', ''en-IN'']"

subsection \<open>The level meter: \<^verbatim>\<open>updateLevel\<close>\<close>

text \<open>
  \<^verbatim>\<open>
  analyserRef.current.fftSize = 256
  const dataArray = new Uint8Array(analyserRef.current.frequencyBinCount)
  const updateLevel = () => {
    if (analyserRef.current) {
      analyserRef.current.getByteFrequencyData(dataArray)
      const average = dataArray.reduce((a, b) => a + b) / dataArray.length
      setAudioLevel(Math.min(100, average * 1.5))
    }
    animationFrameRef.current = requestAnimationFrame(updateLevel)
  }
  \<close>
  An \<^verbatim>\<open>AnalyserNode\<close> has half as many frequency bins as its \<^verbatim>\<open>fftSize\<close>.
\<close>

definition fftSize :: nat where
  "fftSize = 256"

definition frequencyBinCount :: nat where
  "frequencyBinCount = fftSize div 2"

text \<open>
  \<^verbatim>\<open>Array.prototype.reduce\<close> without an initial value: the first element starts the
  accumulation, and an empty array throws a \<^verbatim>\<open>TypeError\<close>.
\<close>

fun reduce :: "('a \<Rightarrow> 'a \<Rightarrow> 'a) \<Rightarrow> 'a list \<Rightarrow> thrown + 'a" where
  "reduce f [] = Inl (Thrown (Some ''Reduce of empty array with no initial value''))"
| "reduce f (x # xs) = Inr (foldl f x xs)"

text \<open>
  One run of \<^verbatim>\<open>updateLevel\<close>. The first argument is \<open>None\<close> when \<^verbatim>\<open>analyserRef.current\<close>
  is unset, and otherwise the bytes that \<^verbatim>\<open>getByteFrequencyData\<close> has written to
  \<^verbatim>\<open>dataArray\<close>; the second is the state variable \<^verbatim>\<open>audioLevel\<close>, and the result is its
  value after the run. The callback of \<^verbatim>\<open>reduce\<close> adds JavaScript numbers, so the bytes
  are added without wrap-around.

  The numbers are rationals here and IEEE doubles in the browser. For a \<^verbatim>\<open>dataArray\<close> of
  \<open>frequencyBinCount = 128\<close> bytes the two agree: the sum is an integer below \<open>2 ^ 15\<close>, the
  division is by a power of two, and \<open>1.5\<close> times the quotient is a multiple of \<open>1 / 256\<close>
  below \<open>2 ^ 9\<close>, so no operation rounds (lemma \<open>updateLevel_dyadic\<close>).
\<close>

definition updateLevel :: "blob option \<Rightarrow> rat \<Rightarrow> thrown + rat" where
  "updateLevel analyser audioLevel =
     (case analyser of
        None \<Rightarrow> Inr audioLevel
      | Some dataArray \<Rightarrow>
          (case reduce (+) (map (\<lambda>b. rat_of_nat (unat b)) dataArray) of
             Inl e \<Rightarrow> Inl e
           | Inr summed \<Rightarrow>
               let average = summed / rat_of_nat (length dataArray)
               in Inr (min 100 (average * 1.5))))"

subsection \<open>Observations on a run\<close>

text \<open>
  The functions return nothing: the outcome of a submission is what they leave in the
  component state. The page shows success with \<^verbatim>\<open>voiceState = 'speaking'\<close>, failure with
  \<^verbatim>\<open>voiceState = 'error'\<close> and the message in \<^verbatim>\<open>statusMessage\<close>, and an exhausted poll
  budget with the orb back to \<^verbatim>\<open>'idle'\<close> under the message
  \<^verbatim>\<open>'Processing taking longer than expected.'\<close>. In any other state no outcome is shown.
\<close>

datatype outcome = completed | failed string | timedOut

definition outcome_of :: "page_state \<Rightarrow> outcome option" where
  "outcome_of s =
     (if voiceState s = speaking then Some completed
      else if voiceState s = error then Some (failed (statusMessage s))
      else if voiceState s = idle \<and> statusMessage s = ''Processing taking longer than expected.''
      then Some timedOut
      else None)"

text \<open>Counting on a trace: status queries, waits between polls, calls to the backend.\<close>

fun isStatusQuery :: "call \<Rightarrow> bool" where
  "isStatusQuery (GetProcessingStatus _) = True"
| "isStatusQuery _ = False"

fun isSleep :: "call \<Rightarrow> bool" where
  "isSleep (Sleep _) = True"
| "isSleep _ = False"

fun isBackendCall :: "call \<Rightarrow> bool" where
  "isBackendCall (CreateVisit _) = True"
| "isBackendCall (GetUploadUrl _ _) = True"
| "isBackendCall (UploadToS3 _ _) = True"
| "isBackendCall (ProcessAudio _ _) = True"
| "isBackendCall (GetProcessingStatus _) = True"
| "isBackendCall _ = False"

definition statusQueries :: "call list \<Rightarrow> nat" where
  "statusQueries tr = length (filter isStatusQuery tr)"

definition waits :: "call list \<Rightarrow> nat" where
  "waits tr = length (filter isSleep tr)"

definition backendCalls :: "call list \<Rightarrow> nat" where
  "backendCalls tr = length (filter isBackendCall tr)"

text \<open>
  The answers of the status endpoint. The two values on which the \<^verbatim>\<open>switch\<close> returns
  are terminal. An attempt is non-terminal when its query throws or answers anything else;
  it is a successful non-terminal attempt when it answers, and with a non-terminal value.
\<close>

definition terminalStatus :: "string \<Rightarrow> bool" where
  "terminalStatus x = (x = ''COMPLETED'' \<or> x = ''FAILED'')"

fun nonTerminal :: "thrown + status_response \<Rightarrow> bool" where
  "nonTerminal (Inl e) = True"
| "nonTerminal (Inr r) = (\<not> terminalStatus (status r))"

fun okNonTerminal :: "thrown + status_response \<Rightarrow> bool" where
  "okNonTerminal (Inl e) = False"
| "okNonTerminal (Inr r) = (\<not> terminalStatus (status r))"

text \<open>
  The text that a successful non-terminal attempt leaves in \<^verbatim>\<open>processingStage\<close>: the two
  \<^verbatim>\<open>case\<close>s that \<^verbatim>\<open>break\<close> set it, any other value falls through the \<^verbatim>\<open>switch\<close>.
\<close>

definition stageAfter :: "string \<Rightarrow> string \<Rightarrow> string" where
  "stageAfter x old =
     (if x = ''TRANSCRIBING'' then ''Transcribing your voice...''
      else if x = ''ANALYZING'' then ''AI analyzing symptoms...''
      else old)"

text \<open>
  The level the specification asks for: the arithmetic mean of the bin magnitudes, times
  the gain, clamped to the interval from 0 to 100.
\<close>

definition arithmetic_mean :: "nat list \<Rightarrow> rat" where
  "arithmetic_mean xs = rat_of_nat (sum_list xs) / rat_of_nat (length xs)"

definition clamp :: "rat \<Rightarrow> rat \<Rightarrow> rat \<Rightarrow> rat" where
  "clamp lo hi x = max lo (min hi x)"

definition spec_level :: "blob \<Rightarrow> rat" where
  "spec_level bins = clamp 0 100 (arithmetic_mean (map unat bins) * 1.5)"

text \<open>
  A backend for the examples: every setup call succeeds, and the status endpoint answers
  attempt \<open>k\<close> with \<open>script k\<close>.
\<close>

definition okApi :: "(nat \<Rightarrow> thrown + status_response) \<Rightarrow> api" where
  "okApi script =
     \<lparr>createVisit = (\<lambda>d. Inr \<lparr>visit_id = ''visit-1''\<rparr>),
      getUploadUrl = (\<lambda>vid ext. Inr \<lparr>upload_url = ''https://bucket/put'', audio_s3_key = ''audio/visit-1.webm''\<rparr>),
      uploadToS3 = (\<lambda>url b. Inr ()),
      processAudio = (\<lambda>vid key. Inr ()),
      getProcessingStatus = (\<lambda>vid. script)\<rparr>"

definition answer :: "string \<Rightarrow> thrown + status_response" where
  "answer x = Inr \<lparr>status = x\<rparr>"

text \<open>A status endpoint that answers the attempts with \<open>xs\<close>, in order, and with \<open>d\<close> from then on.\<close>

definition script ::
  "(thrown + status_response) list \<Rightarrow> (thrown + status_response) \<Rightarrow> nat \<Rightarrow> thrown + status_response" where
  "script xs d k = (if k < length xs then xs ! k else d)"

text \<open>The same backend with an object store that rejects every write with \<open>e\<close>.\<close>

definition uploadFailsApi :: "thrown \<Rightarrow> api" where
  "uploadFailsApi e = (okApi (script [] (answer ''COMPLETED'')))\<lparr>uploadToS3 := (\<lambda>url b. Inl e)\<rparr>"

definition initial :: page_state where
  "initial = \<lparr>voiceState = idle, processingStage = [], statusMessage = [], visitId = None, trace = []\<rparr>"

definition recorded :: "blob \<Rightarrow> string \<Rightarrow> stores" where
  "recorded b lang = \<lparr>user_of = None, audioBlob = Some b, duration = 7, language = lang\<rparr>"

text \<open>
  The component state of the submission of \<open>recorded [1, 2, 3] ''hi-IN''\<close> to \<open>okApi\<close>, at
  the end of the wait that follows a first answer \<^verbatim>\<open>TRANSCRIBING\<close>.
\<close>

definition atFirstWait :: page_state where
  "atFirstWait =
     \<lparr>voiceState = processing,
      processingStage = ''Transcribing your voice...'',
      statusMessage = [],
      visitId = Some ''visit-1'',
      trace =
        [CreateVisit (visitData_of (recorded [1, 2, 3] ''hi-IN'')),
         GetUploadUrl ''visit-1'' ''webm'',
         UploadToS3 ''https://bucket/put'' [1, 2, 3],
         ProcessAudio ''visit-1'' ''audio/visit-1.webm'',
         GetProcessingStatus ''visit-1'',
         Sleep 2000]\<rparr>"

subsection \<open>The form variant of the page\<close>

text \<open>
  The repository holds a second variant of the patient page, a plain form without the
  voice orb. It has the same two functions \<^verbatim>\<open>pollProcessingStatus\<close> and
  \<^verbatim>\<open>uploadAndProcess\<close>, with the same control flow and the same calls; what differs is the
  component state they write (a flag \<^verbatim>\<open>uploading\<close> and one text \<^verbatim>\<open>processingStatus\<close>),
  the texts, and the delay of the reset timer (3000 ms). Its texts start with an emoji,
  given here by its UTF-8 bytes.
\<close>

definition microphone :: string where
  "microphone = [CHR 0xF0, CHR 0x9F, CHR 0x8E, CHR 0xA4]"
definition brain :: string where
  "brain = [CHR 0xF0, CHR 0x9F, CHR 0xA7, CHR 0xA0]"
definition check_mark :: string where
  "check_mark = [CHR 0xE2, CHR 0x9C, CHR 0x85]"
definition cross_mark :: string where
  "cross_mark = [CHR 0xE2, CHR 0x9D, CHR 0x8C]"
definition memo :: string where
  "memo = [CHR 0xF0, CHR 0x9F, CHR 0x93, CHR 0x9D]"
definition link_sign :: string where
  "link_sign = [CHR 0xF0, CHR 0x9F, CHR 0x94, CHR 0x97]"
definition outbox :: string where
  "outbox = [CHR 0xF0, CHR 0x9F, CHR 0x93, CHR 0xA4]"
definition rocket :: string where
  "rocket = [CHR 0xF0, CHR 0x9F, CHR 0x9A, CHR 0x80]"

record form_state =
  uploading :: bool
  visitId_form :: "string option"
  processingStatus :: string
  trace_form :: "call list"

definition emit_form :: "call \<Rightarrow> form_state \<Rightarrow> form_state" where
  "emit_form c t = t\<lparr>trace_form := trace_form t @ [c]\<rparr>"

text \<open>
  The loop of the form variant: the \<^verbatim>\<open>switch\<close> of the orb variant with
  \<^verbatim>\<open>setProcessingStatus\<close> in place of the three setters, \<^verbatim>\<open>setUploading(false)\<close> on
  \<^verbatim>\<open>FAILED\<close> and after the loop, and \<^verbatim>\<open>setTimeout(..., 3000)\<close> on \<^verbatim>\<open>COMPLETED\<close>.
\<close>

function pollLoop_form :: "api \<Rightarrow> string \<Rightarrow> int \<Rightarrow> nat \<Rightarrow> form_state \<Rightarrow> form_state" where
  "pollLoop_form env vid retries i t =
     (if int i < retries then
        (let t1 = emit_form (GetProcessingStatus vid) t in
         case getProcessingStatus env vid i of
           Inl e \<Rightarrow>
             pollLoop_form env vid retries (Suc i)
               (emit_form (ConsoleError ''Error polling status:'' e) t1)
         | Inr r \<Rightarrow>
             if status r = ''TRANSCRIBING'' then
               pollLoop_form env vid retries (Suc i)
                 (emit_form (Sleep 2000)
                    (t1\<lparr>processingStatus := microphone @ '' Transcribing your voice...''\<rparr>))
             else if status r = ''ANALYZING'' then
               pollLoop_form env vid retries (Suc i)
                 (emit_form (Sleep 2000)
                    (t1\<lparr>processingStatus := brain @ '' AI analyzing symptoms...''\<rparr>))
             else if status r = ''COMPLETED'' then
               emit_form (SetTimeout 3000)
                 (t1\<lparr>processingStatus :=
                       check_mark @ '' Complete! Your doctor will review this shortly.''\<rparr>)
             else if status r = ''FAILED'' then
               t1\<lparr>processingStatus := cross_mark @ '' Processing failed. Please try again.'',
                   uploading := False\<rparr>
             else
               pollLoop_form env vid retries (Suc i) (emit_form (Sleep 2000) t1))
      else
        t\<lparr>processingStatus :=
             ''Processing taking longer than expected. The doctor will be notified.'',
           uploading := False\<rparr>)"
  by pat_completeness auto
termination
  by (relation "measure (\<lambda>(env, vid, retries, i, t). nat (retries - int i))") auto

definition pollProcessingStatus_form :: "api \<Rightarrow> string \<Rightarrow> int option \<Rightarrow> form_state \<Rightarrow> form_state" where
  "pollProcessingStatus_form env vid retries t = pollLoop_form env vid (maxAttempts retries) 0 t"

text \<open>
  The pipeline of the form variant. Its handler is
  \<^verbatim>\<open>
  } catch (error: any) {
    console.error('Upload error:', error)
    setProcessingStatus(`<cross mark> Error: ${error.message || 'Upload failed'}`)
    setUploading(false)
  }
  \<close>
  and its body sets a text before each of the four setup calls. On \<^verbatim>\<open>null\<close> or
  \<^verbatim>\<open>undefined\<close> the template string throws at \<^verbatim>\<open>error.message\<close>: neither setter is
  called and the promise rejects.
\<close>

definition catchUpload_form :: "thrown \<Rightarrow> form_state \<Rightarrow> form_state" where
  "catchUpload_form e t =
     (let t1 = emit_form (ConsoleError ''Upload error:'' e) t
      in case e of
           Nullish \<Rightarrow> emit_form RejectsTypeError t1
         | Thrown m \<Rightarrow>
             t1\<lparr>processingStatus := cross_mark @ '' Error: '' @ or_default m ''Upload failed'',
                uploading := False\<rparr>)"

definition uploadAndProcess_form :: "api \<Rightarrow> stores \<Rightarrow> form_state \<Rightarrow> form_state" where
  "uploadAndProcess_form env st t =
     (case audioBlob st of
        None \<Rightarrow> t
      | Some b \<Rightarrow>
          (let t1 = t\<lparr>uploading := True, processingStatus := memo @ '' Creating visit record...''\<rparr>;
               visitData = visitData_of st;
               t2 = emit_form (CreateVisit visitData) t1
           in (case createVisit env visitData of
                 Inl e \<Rightarrow> catchUpload_form e t2
               | Inr v \<Rightarrow>
                   (let t3 = t2\<lparr>visitId_form := Some (visit_id v),
                                 processingStatus := link_sign @ '' Getting upload URL...''\<rparr>;
                        t4 = emit_form (GetUploadUrl (visit_id v) ''webm'') t3
                    in (case getUploadUrl env (visit_id v) ''webm'' of
                          Inl e \<Rightarrow> catchUpload_form e t4
                        | Inr u \<Rightarrow>
                            (let t5 = emit_form (UploadToS3 (upload_url u) b)
                                        (t4\<lparr>processingStatus := outbox @ '' Uploading audio...''\<rparr>)
                             in (case uploadToS3 env (upload_url u) b of
                                   Inl e \<Rightarrow> catchUpload_form e t5
                                 | Inr _ \<Rightarrow>
                                     (let t6 = emit_form (ProcessAudio (visit_id v) (audio_s3_key u))
                                                (t5\<lparr>processingStatus := rocket @ '' Starting AI analysis...''\<rparr>)
                                      in (case processAudio env (visit_id v) (audio_s3_key u) of
                                            Inl e \<Rightarrow> catchUpload_form e t6
                                          | Inr _ \<Rightarrow>
                                              pollProcessingStatus_form env (visit_id v) None t6)))))))))"

text \<open>
  The outcome in the state of the form variant: the text of completion; with
  \<^verbatim>\<open>uploading\<close> back to false, a text that starts with the cross mark (failure, with the
  rest of the text as its message) or the text of the exhausted budget.
\<close>

definition outcome_of_form :: "form_state \<Rightarrow> outcome option" where
  "outcome_of_form t =
     (if processingStatus t = check_mark @ '' Complete! Your doctor will review this shortly.''
      then Some completed
      else if \<not> uploading t \<and> take 4 (processingStatus t) = cross_mark @ '' ''
      then Some (failed (drop 4 (processingStatus t)))
      else if \<not> uploading t \<and> processingStatus t =
                ''Processing taking longer than expected. The doctor will be notified.''
      then Some timedOut
      else None)"

definition statusAfter :: "string \<Rightarrow> string \<Rightarrow> string" where
  "statusAfter x old =
     (if x = ''TRANSCRIBING'' then microphone @ '' Transcribing your voice...''
      else if x = ''ANALYZING'' then brain @ '' AI analyzing symptoms...''
      else old)"

text \<open>
  For comparing runs of the two variants: \<open>retime\<close> forgets the delay of a timer that is not
  waited for, \<open>kind\<close> forgets the message of a failure.
\<close>

fun retime :: "call \<Rightarrow> call" where
  "retime (SetTimeout ms) = SetTimeout 3000"
| "retime c = c"

fun kind :: "outcome \<Rightarrow> outcome" where
  "kind (failed m) = failed []"
| "kind out = out"

section \<open>Properties\<close>

subsection \<open>The loop, one attempt at a time\<close>

declare pollLoop.simps [simp del]

lemma pollLoop_exhausted:
  "\<not> int i < retries \<Longrightarrow>
   pollLoop env vid retries i s =
     s\<lparr>statusMessage := ''Processing taking longer than expected.'', voiceState := idle\<rparr>"
  by (subst pollLoop.simps) simp

lemma pollLoop_thrown:
  "int i < retries \<Longrightarrow> getProcessingStatus env vid i = Inl e \<Longrightarrow>
   pollLoop env vid retries i s =
     pollLoop env vid retries (Suc i)
       (emit (ConsoleError ''Error polling status:'' e) (emit (GetProcessingStatus vid) s))"
  by (subst pollLoop.simps) simp

lemma pollLoop_completed:
  "int i < retries \<Longrightarrow> getProcessingStatus env vid i = Inr r \<Longrightarrow> status r = ''COMPLETED'' \<Longrightarrow>
   pollLoop env vid retries i s =
     emit (SetTimeout 4000)
       ((emit (GetProcessingStatus vid) s)
          \<lparr>voiceState := speaking, processingStage := ''Complete!'',
           statusMessage := ''Your doctor will review this shortly''\<rparr>)"
  by (subst pollLoop.simps) simp

lemma pollLoop_failed:
  "int i < retries \<Longrightarrow> getProcessingStatus env vid i = Inr r \<Longrightarrow> status r = ''FAILED'' \<Longrightarrow>
   pollLoop env vid retries i s =
     (emit (GetProcessingStatus vid) s)
       \<lparr>voiceState := error, statusMessage := ''Processing failed. Please try again.''\<rparr>"
  by (subst pollLoop.simps) simp

lemma pollLoop_continue:
  "int i < retries \<Longrightarrow> getProcessingStatus env vid i = Inr r \<Longrightarrow> \<not> terminalStatus (status r) \<Longrightarrow>
   pollLoop env vid retries i s =
     pollLoop env vid retries (Suc i)
       (emit (Sleep 2000)
          ((emit (GetProcessingStatus vid) s)
             \<lparr>processingStage := stageAfter (status r) (processingStage s)\<rparr>))"
  by (subst pollLoop.simps) (simp add: terminalStatus_def stageAfter_def emit_def)

lemma statusQueries_simps [simp]:
  "statusQueries [] = 0"
  "statusQueries (c # tr) = (if isStatusQuery c then 1 else 0) + statusQueries tr"
  "statusQueries (tr @ tr') = statusQueries tr + statusQueries tr'"
  by (simp_all add: statusQueries_def)

lemma waits_simps [simp]:
  "waits [] = 0"
  "waits (c # tr) = (if isSleep c then 1 else 0) + waits tr"
  "waits (tr @ tr') = waits tr + waits tr'"
  by (simp_all add: waits_def)

lemma backendCalls_simps [simp]:
  "backendCalls [] = 0"
  "backendCalls (c # tr) = (if isBackendCall c then 1 else 0) + backendCalls tr"
  "backendCalls (tr @ tr') = backendCalls tr + backendCalls tr'"
  by (simp_all add: backendCalls_def)

lemma trace_emit [simp]: "trace (emit c s) = trace s @ [c]"
  by (simp add: emit_def)

lemma emit_fields [simp]:
  "voiceState (emit c s) = voiceState s"
  "processingStage (emit c s) = processingStage s"
  "statusMessage (emit c s) = statusMessage s"
  "visitId (emit c s) = visitId s"
  by (simp_all add: emit_def)

subsection \<open>A status source that never answers with a terminal value\<close>

lemma pollLoop_never_terminal:
  "(\<forall>k. i \<le> k \<and> int k < retries \<longrightarrow> nonTerminal (getProcessingStatus env vid k)) \<Longrightarrow>
   statusQueries (trace (pollLoop env vid retries i s)) = statusQueries (trace s) + nat (retries - int i)
   \<and> voiceState (pollLoop env vid retries i s) = idle
   \<and> statusMessage (pollLoop env vid retries i s) = ''Processing taking longer than expected.''"
proof (induction "nat (retries - int i)" arbitrary: i s)
  case 0
  then have "\<not> int i < retries" by simp
  then show ?case by (simp add: pollLoop_exhausted)
next
  case (Suc n)
  then have less: "int i < retries" and n: "n = nat (retries - int (Suc i))" by simp_all
  have later: "\<forall>k. Suc i \<le> k \<and> int k < retries \<longrightarrow> nonTerminal (getProcessingStatus env vid k)"
    using Suc.prems by simp
  have here: "nonTerminal (getProcessingStatus env vid i)"
    using Suc.prems less by simp
  note IH = Suc.hyps(1)[OF n later]
  have arith: "nat (retries - int i) = Suc (nat (retries - int (Suc i)))"
    using less by simp
  show ?case
  proof (cases "getProcessingStatus env vid i")
    case (Inl e)
    show ?thesis
      using IH by (simp add: pollLoop_thrown[OF less Inl] arith)
  next
    case (Inr r)
    with here have nt: "\<not> terminalStatus (status r)" by simp
    show ?thesis
      using IH by (simp add: pollLoop_continue[OF less Inr nt] arith)
  qed
qed

text \<open>
  Claim C2. When no attempt within the budget gets a terminal answer (a query that throws
  and an answer other than \<^verbatim>\<open>COMPLETED\<close> and \<^verbatim>\<open>FAILED\<close> both count as non-terminal), the
  polling engine issues exactly as many status queries as its budget, 30 when the caller
  passes none and \<open>n\<close> when the caller passes \<open>n\<close>, and ends in the outcome \<open>timedOut\<close>, not
  in \<open>failed\<close>.
\<close>

theorem poll_never_terminal_timedOut:
  "((\<forall>k. k < 30 \<longrightarrow> nonTerminal (getProcessingStatus env vid k)) \<longrightarrow>
      statusQueries (trace (pollProcessingStatus env vid None s)) = statusQueries (trace s) + 30
      \<and> outcome_of (pollProcessingStatus env vid None s) = Some timedOut
      \<and> voiceState (pollProcessingStatus env vid None s) \<noteq> error)
   \<and> (0 \<le> n \<and> (\<forall>k. int k < n \<longrightarrow> nonTerminal (getProcessingStatus env vid k)) \<longrightarrow>
      int (statusQueries (trace (pollProcessingStatus env vid (Some n) s)))
        = int (statusQueries (trace s)) + n
      \<and> outcome_of (pollProcessingStatus env vid (Some n) s) = Some timedOut
      \<and> voiceState (pollProcessingStatus env vid (Some n) s) \<noteq> error)"
proof (intro conjI impI)
  assume "\<forall>k. k < 30 \<longrightarrow> nonTerminal (getProcessingStatus env vid k)"
  then have "\<forall>k. 0 \<le> k \<and> int k < 30 \<longrightarrow> nonTerminal (getProcessingStatus env vid k)"
    by simp
  from pollLoop_never_terminal[OF this, of s]
  show "statusQueries (trace (pollProcessingStatus env vid None s)) = statusQueries (trace s) + 30"
    and "outcome_of (pollProcessingStatus env vid None s) = Some timedOut"
    and "voiceState (pollProcessingStatus env vid None s) \<noteq> error"
    by (simp_all add: pollProcessingStatus_def maxAttempts_def outcome_of_def)
next
  assume a: "0 \<le> n \<and> (\<forall>k. int k < n \<longrightarrow> nonTerminal (getProcessingStatus env vid k))"
  then have "\<forall>k. 0 \<le> k \<and> int k < n \<longrightarrow> nonTerminal (getProcessingStatus env vid k)"
    by simp
  from pollLoop_never_terminal[OF this, of s] a
  show "int (statusQueries (trace (pollProcessingStatus env vid (Some n) s)))
          = int (statusQueries (trace s)) + n"
    and "outcome_of (pollProcessingStatus env vid (Some n) s) = Some timedOut"
    and "voiceState (pollProcessingStatus env vid (Some n) s) \<noteq> error"
    by (simp_all add: pollProcessingStatus_def maxAttempts_def outcome_of_def)
qed

text \<open>
  Against a source whose even attempts throw and whose odd attempts answer the unknown
  value \<^verbatim>\<open>QUEUED\<close>: 30 queries without a budget, 2 queries with the budget 2, and
  \<open>timedOut\<close> both times.
\<close>

theorem poll_never_terminal_timedOut_witness:
  "statusQueries (trace (pollProcessingStatus
         (okApi (\<lambda>k. if even k then Inl (Thrown None) else answer ''QUEUED'')) ''visit-1'' None initial)) = 30
   \<and> outcome_of (pollProcessingStatus
         (okApi (\<lambda>k. if even k then Inl (Thrown None) else answer ''QUEUED'')) ''visit-1'' None initial)
       = Some timedOut
   \<and> statusQueries (trace (pollProcessingStatus
         (okApi (\<lambda>k. if even k then Inl (Thrown None) else answer ''QUEUED'')) ''visit-1'' (Some 2) initial)) = 2
   \<and> outcome_of (pollProcessingStatus
         (okApi (\<lambda>k. if even k then Inl (Thrown None) else answer ''QUEUED'')) ''visit-1'' (Some 2) initial)
       = Some timedOut"
proof -
  let ?env = "okApi (\<lambda>k. if even k then Inl (Thrown None) else answer ''QUEUED'')"
  have h: "\<forall>k. nonTerminal (getProcessingStatus ?env ''visit-1'' k)"
    by (simp add: okApi_def answer_def terminalStatus_def)
  have z: "statusQueries (trace initial) = 0"
    by (simp add: initial_def)
  from poll_never_terminal_timedOut[of ?env "''visit-1''" initial 2] h
  have "statusQueries (trace (pollProcessingStatus ?env ''visit-1'' None initial))
          = statusQueries (trace initial) + 30"
    and "outcome_of (pollProcessingStatus ?env ''visit-1'' None initial) = Some timedOut"
    and "int (statusQueries (trace (pollProcessingStatus ?env ''visit-1'' (Some 2) initial)))
          = int (statusQueries (trace initial)) + 2"
    and "outcome_of (pollProcessingStatus ?env ''visit-1'' (Some 2) initial) = Some timedOut"
    by simp_all
  then show ?thesis
    unfolding z by simp
qed

subsection \<open>A query that throws\<close>

text \<open>
  Every statement of the loop body is inside the \<^verbatim>\<open>try\<close>, and its handler only logs; the
  two statements after the loop are state setters. So \<^verbatim>\<open>pollProcessingStatus\<close> has no
  path on which it throws, and \<open>pollLoop\<close> returns a state on every input.

  Claim C4. A query that throws on some attempt is logged and nothing else: the loop goes
  on with the next attempt, from a state that differs only by the query and the log entry
  in the trace. When the next attempt answers \<^verbatim>\<open>COMPLETED\<close>, the outcome is \<open>completed\<close>.
\<close>

theorem poll_error_swallowed:
  "(int i < retries \<and> getProcessingStatus env vid i = Inl e \<longrightarrow>
      pollLoop env vid retries i s =
        pollLoop env vid retries (Suc i)
          (emit (ConsoleError ''Error polling status:'' e) (emit (GetProcessingStatus vid) s)))
   \<and> (int (Suc i) < retries \<and> getProcessingStatus env vid i = Inl e
        \<and> getProcessingStatus env vid (Suc i) = answer ''COMPLETED'' \<longrightarrow>
      outcome_of (pollLoop env vid retries i s) = Some completed
      \<and> trace (pollLoop env vid retries i s) =
          trace s @ [GetProcessingStatus vid, ConsoleError ''Error polling status:'' e,
                     GetProcessingStatus vid, SetTimeout 4000])"
proof (intro conjI impI)
  assume "int i < retries \<and> getProcessingStatus env vid i = Inl e"
  then show "pollLoop env vid retries i s =
        pollLoop env vid retries (Suc i)
          (emit (ConsoleError ''Error polling status:'' e) (emit (GetProcessingStatus vid) s))"
    by (simp add: pollLoop_thrown)
next
  assume a: "int (Suc i) < retries \<and> getProcessingStatus env vid i = Inl e
        \<and> getProcessingStatus env vid (Suc i) = answer ''COMPLETED''"
  then have less: "int i < retries" and less': "int (Suc i) < retries"
    and thr: "getProcessingStatus env vid i = Inl e"
    and fin: "getProcessingStatus env vid (Suc i) = Inr \<lparr>status = ''COMPLETED''\<rparr>"
    by (simp_all add: answer_def)
  have run: "pollLoop env vid retries i s =
      emit (SetTimeout 4000)
       ((emit (GetProcessingStatus vid)
           (emit (ConsoleError ''Error polling status:'' e) (emit (GetProcessingStatus vid) s)))
          \<lparr>voiceState := speaking, processingStage := ''Complete!'',
           statusMessage := ''Your doctor will review this shortly''\<rparr>)"
    by (simp add: pollLoop_thrown[OF less thr] pollLoop_completed[OF less' fin])
  show "outcome_of (pollLoop env vid retries i s) = Some completed"
    by (simp add: run outcome_of_def)
  show "trace (pollLoop env vid retries i s) =
          trace s @ [GetProcessingStatus vid, ConsoleError ''Error polling status:'' e,
                     GetProcessingStatus vid, SetTimeout 4000]"
    by (simp add: run)
qed

text \<open>The first query throws, the second answers \<^verbatim>\<open>COMPLETED\<close>.\<close>

theorem poll_error_swallowed_witness:
  "outcome_of (pollProcessingStatus (okApi (script [Inl (Thrown (Some ''Network Error''))] (answer ''COMPLETED'')))
      ''visit-1'' None initial) = Some completed
   \<and> trace (pollProcessingStatus (okApi (script [Inl (Thrown (Some ''Network Error''))] (answer ''COMPLETED'')))
      ''visit-1'' None initial) =
      [GetProcessingStatus ''visit-1'', ConsoleError ''Error polling status:'' (Thrown (Some ''Network Error'')),
       GetProcessingStatus ''visit-1'', SetTimeout 4000]"
proof -
  let ?env = "okApi (script [Inl (Thrown (Some ''Network Error''))] (answer ''COMPLETED''))"
  have h: "int (Suc 0) < 30 \<and> getProcessingStatus ?env ''visit-1'' 0 = Inl (Thrown (Some ''Network Error''))
        \<and> getProcessingStatus ?env ''visit-1'' (Suc 0) = answer ''COMPLETED''"
    by (simp add: okApi_def script_def)
  from poll_error_swallowed[of 0 30 ?env "''visit-1''" "Thrown (Some ''Network Error'')" initial] h
  have "outcome_of (pollLoop ?env ''visit-1'' 30 0 initial) = Some completed
      \<and> trace (pollLoop ?env ''visit-1'' 30 0 initial) =
          trace initial @ [GetProcessingStatus ''visit-1'',
            ConsoleError ''Error polling status:'' (Thrown (Some ''Network Error'')),
            GetProcessingStatus ''visit-1'', SetTimeout 4000]"
    by blast
  moreover have "trace initial = []"
    by (simp add: initial_def)
  ultimately show ?thesis
    by (simp add: pollProcessingStatus_def maxAttempts_def)
qed

subsection \<open>An answer outside the vocabulary\<close>



subsection \<open>Counting the waits\<close>

lemma pollLoop_waits:
  "\<exists>n. statusQueries (trace (pollLoop env vid retries i s)) = statusQueries (trace s) + n
     \<and> waits (trace (pollLoop env vid retries i s)) =
         waits (trace s) + length (filter (\<lambda>k. okNonTerminal (getProcessingStatus env vid k)) [i..<i + n])"
proof (induction "nat (retries - int i)" arbitrary: i s)
  case 0
  then have "\<not> int i < retries" by simp
  then show ?case by (simp add: pollLoop_exhausted)
next
  case (Suc m)
  then have less: "int i < retries" and m: "m = nat (retries - int (Suc i))" by simp_all
  note IH = Suc.hyps(1)[OF m]
  have split: "[i..<Suc (i + n)] = i # [Suc i..<Suc (i + n)]" for n
    by (subst upt_rec) simp
  show ?case
  proof (cases "getProcessingStatus env vid i")
    case (Inl e)
    from IH[of "emit (ConsoleError ''Error polling status:'' e) (emit (GetProcessingStatus vid) s)"]
    obtain n where
      "statusQueries (trace (pollLoop env vid retries i s)) = statusQueries (trace s) + Suc n"
      "waits (trace (pollLoop env vid retries i s)) =
         waits (trace s) + length (filter (\<lambda>k. okNonTerminal (getProcessingStatus env vid k)) [Suc i..<Suc (i + n)])"
      by (auto simp del: upt_Suc simp add: pollLoop_thrown[OF less Inl])
    then show ?thesis
      using Inl by (intro exI[of _ "Suc n"]) (simp del: upt_Suc add: split)
  next
    case (Inr r)
    show ?thesis
    proof (cases "terminalStatus (status r)")
      case True
      then consider "status r = ''COMPLETED''" | "status r = ''FAILED''"
        by (auto simp: terminalStatus_def)
      then show ?thesis
      proof cases
        case 1
        show ?thesis
          using Inr True by (intro exI[of _ "Suc 0"]) (simp add: pollLoop_completed[OF less Inr 1])
      next
        case 2
        show ?thesis
          using Inr True by (intro exI[of _ "Suc 0"]) (simp add: pollLoop_failed[OF less Inr 2])
      qed
    next
      case False
      from IH[of "emit (Sleep 2000)
          ((emit (GetProcessingStatus vid) s)
             \<lparr>processingStage := stageAfter (status r) (processingStage s)\<rparr>)"]
      obtain n where
        "statusQueries (trace (pollLoop env vid retries i s)) = statusQueries (trace s) + Suc n"
        "waits (trace (pollLoop env vid retries i s)) =
           Suc (waits (trace s)) + length (filter (\<lambda>k. okNonTerminal (getProcessingStatus env vid k)) [Suc i..<Suc (i + n)])"
        by (auto simp del: upt_Suc simp add: pollLoop_continue[OF less Inr False])
      then show ?thesis
        using Inr False by (intro exI[of _ "Suc n"]) (simp del: upt_Suc add: split)
    qed
  qed
qed

text \<open>
  Claim C9. The wait of 2000 ms is inside the \<^verbatim>\<open>try\<close>, after the \<^verbatim>\<open>switch\<close>: an attempt
  whose query throws goes to the next attempt without it. So a run of the polling engine
  waits as many times as it has successful non-terminal attempts, which may be fewer than
  its attempts; the attempts of a run are those numbered below the number of queries it
  issued.
\<close>

theorem poll_waits_count:
  "waits (trace (pollProcessingStatus env vid retries s)) =
     waits (trace s) +
     length (filter (\<lambda>k. okNonTerminal (getProcessingStatus env vid k))
       [0..<statusQueries (trace (pollProcessingStatus env vid retries s)) - statusQueries (trace s)])
   \<and> (int i < maxAttempts retries \<and> getProcessingStatus env vid i = Inl e \<longrightarrow>
        pollLoop env vid (maxAttempts retries) i s' =
          pollLoop env vid (maxAttempts retries) (Suc i)
            (emit (ConsoleError ''Error polling status:'' e) (emit (GetProcessingStatus vid) s'))
        \<and> waits (trace (emit (ConsoleError ''Error polling status:'' e) (emit (GetProcessingStatus vid) s')))
            = waits (trace s'))"
proof -
  obtain n where
    "statusQueries (trace (pollLoop env vid (maxAttempts retries) 0 s)) = statusQueries (trace s) + n"
    "waits (trace (pollLoop env vid (maxAttempts retries) 0 s)) =
       waits (trace s) + length (filter (\<lambda>k. okNonTerminal (getProcessingStatus env vid k)) [0..<0 + n])"
    using pollLoop_waits[of env vid "maxAttempts retries" 0 s] by blast
  then show ?thesis
    by (simp add: pollProcessingStatus_def pollLoop_thrown)
qed

text \<open>
  Four attempts (\<^verbatim>\<open>TRANSCRIBING\<close>, a throw, \<^verbatim>\<open>TRANSCRIBING\<close>, \<^verbatim>\<open>COMPLETED\<close>), two waits.
\<close>

theorem poll_waits_count_witness:
  "waits (trace (pollProcessingStatus
      (okApi (\<lambda>k. if k = 1 then Inl (Thrown None) else if k < 3 then answer ''TRANSCRIBING'' else answer ''COMPLETED''))
      ''visit-1'' None initial)) = 2
   \<and> statusQueries (trace (pollProcessingStatus
      (okApi (\<lambda>k. if k = 1 then Inl (Thrown None) else if k < 3 then answer ''TRANSCRIBING'' else answer ''COMPLETED''))
      ''visit-1'' None initial)) = 4"
proof -
  let ?env = "okApi (\<lambda>k. if k = 1 then Inl (Thrown None) else if k < 3 then answer ''TRANSCRIBING'' else answer ''COMPLETED'')"
  have q: "statusQueries (trace (pollProcessingStatus ?env ''visit-1'' None initial)) = 4"
    by code_simp
  have up: "[0..<4] = [0, Suc 0, Suc (Suc 0), Suc (Suc (Suc 0))]"
    by (simp add: upt_rec)
  have z: "statusQueries (trace initial) = 0" "waits (trace initial) = 0"
    by (simp_all add: initial_def statusQueries_def waits_def)
  have f: "length (filter (\<lambda>k. okNonTerminal (getProcessingStatus ?env ''visit-1'' k)) [0..<4]) = 2"
    unfolding up by (simp add: okApi_def answer_def terminalStatus_def)
  from poll_waits_count[of ?env "''visit-1''" None initial 1 "Thrown None" initial]
  have "waits (trace (pollProcessingStatus ?env ''visit-1'' None initial)) =
     waits (trace initial) +
     length (filter (\<lambda>k. okNonTerminal (getProcessingStatus ?env ''visit-1'' k))
       [0..<statusQueries (trace (pollProcessingStatus ?env ''visit-1'' None initial)) - statusQueries (trace initial)])"
    by (rule conjunct1)
  then show ?thesis
    unfolding q z using f by simp
qed

subsection \<open>The submission pipeline\<close>

text \<open>
  Claim C3. When the recording is present, the four setup calls succeed and the status
  endpoint answers \<^verbatim>\<open>TRANSCRIBING\<close>, \<^verbatim>\<open>ANALYZING\<close>, \<^verbatim>\<open>COMPLETED\<close> on the first three
  attempts, the submission ends in \<open>completed\<close> after exactly three status queries and two
  waits: the trace ends with the third query and the timer of the reset, with no wait
  after the answer \<^verbatim>\<open>COMPLETED\<close>.
\<close>

theorem submit_three_polls_completed:
  assumes "audioBlob st = Some b"
    and "createVisit env (visitData_of st) = Inr v"
    and "getUploadUrl env (visit_id v) ''webm'' = Inr u"
    and "uploadToS3 env (upload_url u) b = Inr ()"
    and "processAudio env (visit_id v) (audio_s3_key u) = Inr ()"
    and "getProcessingStatus env (visit_id v) 0 = answer ''TRANSCRIBING''"
    and "getProcessingStatus env (visit_id v) 1 = answer ''ANALYZING''"
    and "getProcessingStatus env (visit_id v) 2 = answer ''COMPLETED''"
  shows "outcome_of (uploadAndProcess env st s) = Some completed
     \<and> statusQueries (trace (uploadAndProcess env st s)) = statusQueries (trace s) + 3
     \<and> waits (trace (uploadAndProcess env st s)) = waits (trace s) + 2
     \<and> trace (uploadAndProcess env st s) =
         trace s @ [CreateVisit (visitData_of st), GetUploadUrl (visit_id v) ''webm'',
                    UploadToS3 (upload_url u) b, ProcessAudio (visit_id v) (audio_s3_key u),
                    GetProcessingStatus (visit_id v), Sleep 2000,
                    GetProcessingStatus (visit_id v), Sleep 2000,
                    GetProcessingStatus (visit_id v), SetTimeout 4000]"
proof -
  have r0: "getProcessingStatus env (visit_id v) 0 = Inr \<lparr>status = ''TRANSCRIBING''\<rparr>"
    and r1: "getProcessingStatus env (visit_id v) (Suc 0) = Inr \<lparr>status = ''ANALYZING''\<rparr>"
    and r2: "getProcessingStatus env (visit_id v) (Suc (Suc 0)) = Inr \<lparr>status = ''COMPLETED''\<rparr>"
    using assms(6-8) by (simp_all add: answer_def numeral_2_eq_2)
  have poll: "pollLoop env (visit_id v) 30 0 s' =
      emit (SetTimeout 4000)
        ((emit (GetProcessingStatus (visit_id v))
           (emit (Sleep 2000)
             ((emit (GetProcessingStatus (visit_id v))
                (emit (Sleep 2000)
                  ((emit (GetProcessingStatus (visit_id v)) s')
                     \<lparr>processingStage := ''Transcribing your voice...''\<rparr>)))
                \<lparr>processingStage := ''AI analyzing symptoms...''\<rparr>)))
           \<lparr>voiceState := speaking, processingStage := ''Complete!'',
            statusMessage := ''Your doctor will review this shortly''\<rparr>)" for s'
    by (simp add: pollLoop_continue[OF _ r0] pollLoop_continue[OF _ r1] pollLoop_completed[OF _ r2]
        terminalStatus_def stageAfter_def)
  have run: "uploadAndProcess env st s =
      pollLoop env (visit_id v) 30 0
        (emit (ProcessAudio (visit_id v) (audio_s3_key u))
          ((emit (UploadToS3 (upload_url u) b)
             (emit (GetUploadUrl (visit_id v) ''webm'')
               ((emit (CreateVisit (visitData_of st))
                  (s\<lparr>voiceState := processing, processingStage := ''Creating visit record...''\<rparr>))
                  \<lparr>visitId := Some (visit_id v), processingStage := ''Uploading audio...''\<rparr>)))
             \<lparr>processingStage := ''Starting AI analysis...''\<rparr>))"
    by (simp add: uploadAndProcess_def Let_def assms(1-5) pollProcessingStatus_def maxAttempts_def)
  show ?thesis
    unfolding run poll by (simp add: outcome_of_def)
qed

theorem submit_three_polls_completed_witness:
  "outcome_of (uploadAndProcess
      (okApi (script [answer ''TRANSCRIBING'', answer ''ANALYZING''] (answer ''COMPLETED'')))
      (recorded [1, 2, 3] ''hi-IN'') initial) = Some completed
   \<and> statusQueries (trace (uploadAndProcess
      (okApi (script [answer ''TRANSCRIBING'', answer ''ANALYZING''] (answer ''COMPLETED'')))
      (recorded [1, 2, 3] ''hi-IN'') initial)) = 3
   \<and> waits (trace (uploadAndProcess
      (okApi (script [answer ''TRANSCRIBING'', answer ''ANALYZING''] (answer ''COMPLETED'')))
      (recorded [1, 2, 3] ''hi-IN'') initial)) = 2"
proof -
  let ?env = "okApi (script [answer ''TRANSCRIBING'', answer ''ANALYZING''] (answer ''COMPLETED''))"
  let ?st = "recorded [1, 2, 3] ''hi-IN''"
  let ?v = "\<lparr>visit_id = ''visit-1''\<rparr>"
  let ?u = "\<lparr>upload_url = ''https://bucket/put'', audio_s3_key = ''audio/visit-1.webm''\<rparr>"
  have h1: "audioBlob ?st = Some [1, 2, 3]"
    by (simp add: recorded_def)
  have h2: "createVisit ?env (visitData_of ?st) = Inr ?v"
    and h3: "getUploadUrl ?env (visit_id ?v) ''webm'' = Inr ?u"
    and h4: "uploadToS3 ?env (upload_url ?u) [1, 2, 3] = Inr ()"
    and h5: "processAudio ?env (visit_id ?v) (audio_s3_key ?u) = Inr ()"
    and h6: "getProcessingStatus ?env (visit_id ?v) 0 = answer ''TRANSCRIBING''"
    and h7: "getProcessingStatus ?env (visit_id ?v) 1 = answer ''ANALYZING''"
    and h8: "getProcessingStatus ?env (visit_id ?v) 2 = answer ''COMPLETED''"
    by (simp_all add: okApi_def script_def)
  have z: "statusQueries (trace initial) = 0" "waits (trace initial) = 0"
    by (simp_all add: initial_def)
  from submit_three_polls_completed[OF h1 h2 h3 h4 h5 h6 h7 h8, of initial] z show ?thesis
    by simp
qed



text \<open>
  The same with an error object: the outcome is \<open>failed\<close> with its message.
\<close>

lemma upload_rejected_with_error_object:
  "outcome_of (uploadAndProcess (uploadFailsApi (Thrown (Some ''Network Error'')))
      (recorded [1, 2, 3] ''hi-IN'') initial) = Some (failed ''Network Error'')
   \<and> outcome_of (uploadAndProcess (uploadFailsApi (Thrown None))
      (recorded [1, 2, 3] ''hi-IN'') initial) = Some (failed ''Upload failed'')"
  by code_simp

text \<open>
  Claim C10. Without a recording (\<^verbatim>\<open>audioBlob\<close> is \<^verbatim>\<open>null\<close>) the submission returns at
  once: the component state and the trace are what they were, so no stage, no message,
  no failure and no call.
\<close>

theorem submit_null_blob_noop: "uploadAndProcess env (st\<lparr>audioBlob := None\<rparr>) s = s"
  by (simp add: uploadAndProcess_def)

theorem submit_null_blob_noop_witness:
  "uploadAndProcess (okApi (script [] (answer ''COMPLETED''))) ((recorded [1, 2, 3] ''hi-IN'')\<lparr>audioBlob := None\<rparr>) initial
     = initial"
  by (rule submit_null_blob_noop)

subsection \<open>The calls of a run do not depend on the component state\<close>

text \<open>
  \<^verbatim>\<open>pollProcessingStatus\<close> has two parameters, the visit and the budget, and it reads
  nothing else but the answers of the status endpoint: no state variable, no ref, no
  signal. The page registers no clean-up for it and keeps no handle of the timers it
  starts. So the calls of a run, from any attempt on, are fixed by the answers alone.
\<close>

lemma pollLoop_calls_independent:
  "\<exists>evs. \<forall>s. trace (pollLoop env vid retries i s) = trace s @ evs"
proof (induction "nat (retries - int i)" arbitrary: i)
  case 0
  then have "\<not> int i < retries" by simp
  then show ?case by (simp add: pollLoop_exhausted)
next
  case (Suc m)
  then have less: "int i < retries" and m: "m = nat (retries - int (Suc i))" by simp_all
  from Suc.hyps(1)[OF m] obtain evs where
    IH: "\<And>s. trace (pollLoop env vid retries (Suc i) s) = trace s @ evs"
    by blast
  show ?case
  proof (cases "getProcessingStatus env vid i")
    case (Inl e)
    show ?thesis
      by (rule exI[of _ "GetProcessingStatus vid # ConsoleError ''Error polling status:'' e # evs"])
         (simp add: pollLoop_thrown[OF less Inl] IH)
  next
    case (Inr r)
    show ?thesis
    proof (cases "terminalStatus (status r)")
      case True
      then consider "status r = ''COMPLETED''" | "status r = ''FAILED''"
        by (auto simp: terminalStatus_def)
      then show ?thesis
      proof cases
        case 1
        show ?thesis
          by (rule exI[of _ "[GetProcessingStatus vid, SetTimeout 4000]"])
             (simp add: pollLoop_completed[OF less Inr 1])
      next
        case 2
        show ?thesis
          by (rule exI[of _ "[GetProcessingStatus vid]"])
             (simp add: pollLoop_failed[OF less Inr 2])
      qed
    next
      case False
      show ?thesis
        by (rule exI[of _ "GetProcessingStatus vid # Sleep 2000 # evs"])
           (simp add: pollLoop_continue[OF less Inr False] IH)
    qed
  qed
qed

lemma pollLoop_starts_with_query:
  assumes "int i < retries"
  shows "\<exists>rest. trace (pollLoop env vid retries i s) = trace s @ GetProcessingStatus vid # rest"
proof -
  obtain evs where next_calls: "\<And>s. trace (pollLoop env vid retries (Suc i) s) = trace s @ evs"
    using pollLoop_calls_independent by blast
  show ?thesis
  proof (cases "getProcessingStatus env vid i")
    case (Inl e)
    show ?thesis
      by (simp add: pollLoop_thrown[OF assms Inl] next_calls)
  next
    case (Inr r)
    show ?thesis
    proof (cases "terminalStatus (status r)")
      case True
      then consider "status r = ''COMPLETED''" | "status r = ''FAILED''"
        by (auto simp: terminalStatus_def)
      then show ?thesis
      proof cases
        case 1
        show ?thesis
          by (simp add: pollLoop_completed[OF assms Inr 1])
      next
        case 2
        show ?thesis
          by (simp add: pollLoop_failed[OF assms Inr 2])
      qed
    next
      case False
      show ?thesis
        by (simp add: pollLoop_continue[OF assms Inr False] next_calls)
    qed
  qed
qed

text \<open>
  Claim C5 says that the loop is cancellable: a cancellation requested during a wait
  between two polls takes effect before the next attempt, after which there is no status
  query, no notification and no pending timer. Nothing of the kind can reach the loop. A
  submission whose first status answer is \<^verbatim>\<open>TRANSCRIBING\<close> and whose second is
  \<^verbatim>\<open>COMPLETED\<close>: the run is the loop resumed at attempt 1 from the state \<open>atFirstWait\<close>.
  The user logs out during that wait, which takes the page down: the loop resumed from
  the state that \<^verbatim>\<open>handleLogout\<close> leaves still issues the second status query, calls the
  state setters of the \<^verbatim>\<open>COMPLETED\<close> branch, and starts the timer of 4000 ms, which
  nothing clears.
\<close>

theorem poll_not_cancellable_counterexample:
  "uploadAndProcess (okApi (script [answer ''TRANSCRIBING''] (answer ''COMPLETED'')))
      (recorded [1, 2, 3] ''hi-IN'') initial
     = pollLoop (okApi (script [answer ''TRANSCRIBING''] (answer ''COMPLETED''))) ''visit-1'' 30 1
         atFirstWait
   \<and> trace (pollLoop (okApi (script [answer ''TRANSCRIBING''] (answer ''COMPLETED''))) ''visit-1'' 30 1
         (snd (handleLogout (recorded [1, 2, 3] ''hi-IN'', atFirstWait))))
     = trace atFirstWait @
         [RouterPush ''/login'', GetProcessingStatus ''visit-1'', SetTimeout 4000]
   \<and> voiceState (pollLoop (okApi (script [answer ''TRANSCRIBING''] (answer ''COMPLETED''))) ''visit-1'' 30 1
         (snd (handleLogout (recorded [1, 2, 3] ''hi-IN'', atFirstWait))))
     = speaking
   \<and> processingStage (pollLoop (okApi (script [answer ''TRANSCRIBING''] (answer ''COMPLETED''))) ''visit-1'' 30 1
         (snd (handleLogout (recorded [1, 2, 3] ''hi-IN'', atFirstWait))))
     = ''Complete!''"
  by code_simp

text \<open>
  Claim C5, amended. The loop cannot be cancelled. The calls of a run are determined by
  the visit, the budget and the answers of the status endpoint, whatever the component
  state; after a successful non-terminal attempt the loop waits and is at the next
  attempt; and from the end of a wait, while attempts remain, the next call is a status
  query, whatever has been done to the component state during the wait.
\<close>

theorem poll_not_cancellable:
  "(\<exists>evs. \<forall>s. trace (pollLoop env vid retries i s) = trace s @ evs)
   \<and> (int i < retries \<and> okNonTerminal (getProcessingStatus env vid i) \<longrightarrow>
        (\<exists>s1. pollLoop env vid retries i s = pollLoop env vid retries (Suc i) (emit (Sleep 2000) s1)))
   \<and> (int (Suc i) < retries \<longrightarrow>
        (\<forall>s'. \<exists>rest. trace (pollLoop env vid retries (Suc i) s') = trace s' @ GetProcessingStatus vid # rest))"
proof (intro conjI impI allI)
  show "\<exists>evs. \<forall>s. trace (pollLoop env vid retries i s) = trace s @ evs"
    by (rule pollLoop_calls_independent)
next
  assume a: "int i < retries \<and> okNonTerminal (getProcessingStatus env vid i)"
  then obtain r where r: "getProcessingStatus env vid i = Inr r" "\<not> terminalStatus (status r)"
    by (cases "getProcessingStatus env vid i") simp_all
  from a have less: "int i < retries" by simp
  show "\<exists>s1. pollLoop env vid retries i s = pollLoop env vid retries (Suc i) (emit (Sleep 2000) s1)"
    using pollLoop_continue[OF less r] by blast
next
  fix s'
  assume "int (Suc i) < retries"
  then show "\<exists>rest. trace (pollLoop env vid retries (Suc i) s') = trace s' @ GetProcessingStatus vid # rest"
    by (rule pollLoop_starts_with_query)
qed

text \<open>The backend of the counterexample; the loop resumed after \<^verbatim>\<open>handleLogout\<close>.\<close>

theorem poll_not_cancellable_witness:
  "(\<exists>s1. pollLoop (okApi (script [answer ''TRANSCRIBING''] (answer ''COMPLETED''))) ''visit-1'' 30 0 initial
       = pollLoop (okApi (script [answer ''TRANSCRIBING''] (answer ''COMPLETED''))) ''visit-1'' 30 (Suc 0) (emit (Sleep 2000) s1))
   \<and> (\<exists>rest. trace (pollLoop (okApi (script [answer ''TRANSCRIBING''] (answer ''COMPLETED''))) ''visit-1'' 30 (Suc 0)
                 (snd (handleLogout (recorded [1, 2, 3] ''hi-IN'', atFirstWait))))
        = trace atFirstWait @ RouterPush ''/login'' # GetProcessingStatus ''visit-1'' # rest)"
proof -
  let ?env = "okApi (script [answer ''TRANSCRIBING''] (answer ''COMPLETED''))"
  let ?s' = "snd (handleLogout (recorded [1, 2, 3] ''hi-IN'', atFirstWait))"
  have h1: "int 0 < 30 \<and> okNonTerminal (getProcessingStatus ?env ''visit-1'' 0)"
    by (simp add: okApi_def script_def answer_def terminalStatus_def)
  have h2: "int (Suc 0) < 30" by simp
  have z: "trace ?s' = trace atFirstWait @ [RouterPush ''/login'']"
    by (simp add: handleLogout_def)
  from poll_not_cancellable[of ?env "''visit-1''" 30 0 initial] h1 h2
  have "(\<exists>s1. pollLoop ?env ''visit-1'' 30 0 initial = pollLoop ?env ''visit-1'' 30 (Suc 0) (emit (Sleep 2000) s1))"
    and "\<exists>rest. trace (pollLoop ?env ''visit-1'' 30 (Suc 0) ?s') = trace ?s' @ GetProcessingStatus ''visit-1'' # rest"
    by blast+
  then show ?thesis
    unfolding z by simp
qed

subsection \<open>What the submission checks\<close>

text \<open>
  Claim C1 says that an empty recording or a language code outside the six of
  \<open>LANGUAGES\<close> ends in \<open>failed\<close> with a validation error and without any call. The page has
  no such validation. Two runs against a backend that accepts everything: a recording of
  three bytes with the language \<^verbatim>\<open>fr-FR\<close>, and a recording of no bytes with the language
  \<^verbatim>\<open>hi-IN\<close>. Both end in \<open>completed\<close> after five calls to the backend.
\<close>

theorem submit_no_validation_counterexample:
  "''fr-FR'' \<notin> set LANGUAGES
   \<and> outcome_of (uploadAndProcess (okApi (script [] (answer ''COMPLETED''))) (recorded [1, 2, 3] ''fr-FR'') initial)
       = Some completed
   \<and> backendCalls (trace (uploadAndProcess (okApi (script [] (answer ''COMPLETED''))) (recorded [1, 2, 3] ''fr-FR'') initial)) = 5
   \<and> ''hi-IN'' \<in> set LANGUAGES
   \<and> outcome_of (uploadAndProcess (okApi (script [] (answer ''COMPLETED''))) (recorded [] ''hi-IN'') initial)
       = Some completed
   \<and> backendCalls (trace (uploadAndProcess (okApi (script [] (answer ''COMPLETED''))) (recorded [] ''hi-IN'') initial)) = 5"
  by code_simp


lemma pollLoop_error_only_by_FAILED:
  "voiceState (pollLoop env vid retries i s) = error \<Longrightarrow>
   \<exists>k r. getProcessingStatus env vid k = Inr r \<and> status r = ''FAILED''"
proof (induction "nat (retries - int i)" arbitrary: i s)
  case 0
  then have "\<not> int i < retries" by simp
  with 0 show ?case by (simp add: pollLoop_exhausted)
next
  case (Suc m)
  then have less: "int i < retries" and m: "m = nat (retries - int (Suc i))" by simp_all
  note IH = Suc.hyps(1)[OF m]
  show ?case
  proof (cases "getProcessingStatus env vid i")
    case (Inl e)
    with Suc.prems show ?thesis
      by (auto simp: pollLoop_thrown[OF less Inl] dest: IH)
  next
    case (Inr r)
    show ?thesis
    proof (cases "terminalStatus (status r)")
      case True
      then consider "status r = ''COMPLETED''" | "status r = ''FAILED''"
        by (auto simp: terminalStatus_def)
      then show ?thesis
      proof cases
        case 1
        with Suc.prems show ?thesis
          by (simp add: pollLoop_completed[OF less Inr 1])
      next
        case 2
        with Inr show ?thesis by blast
      qed
    next
      case False
      with Suc.prems show ?thesis
        by (auto simp: pollLoop_continue[OF less Inr False] dest: IH)
    qed
  qed
qed

lemma uploadAndProcess_accepted:
  assumes "audioBlob st = Some b"
    and "createVisit env (visitData_of st) = Inr v"
    and "getUploadUrl env (visit_id v) ''webm'' = Inr u"
    and "uploadToS3 env (upload_url u) b = Inr x"
    and "processAudio env (visit_id v) (audio_s3_key u) = Inr y"
  shows "uploadAndProcess env st s =
      pollProcessingStatus env (visit_id v) None
        (s\<lparr>voiceState := processing,
           visitId := Some (visit_id v),
           processingStage := ''Starting AI analysis...'',
           trace := trace s @
             [CreateVisit (visitData_of st), GetUploadUrl (visit_id v) ''webm'',
              UploadToS3 (upload_url u) b, ProcessAudio (visit_id v) (audio_s3_key u)]\<rparr>)"
  by (simp add: uploadAndProcess_def Let_def assms emit_def)

text \<open>
  Claim C1, amended. The submission checks only that a recording is present. With none
  (\<^verbatim>\<open>audioBlob\<close> is \<^verbatim>\<open>null\<close>) it returns at once, with no call and no change of state,
  so it shows no failure either. With one, of whatever size and under whatever language
  code: its first call is the visit creation, and the language code goes to the registry
  as it is; when the four setup calls succeed, the submission goes on to the polling,
  having passed the recording to the object store as it is; and it shows a failure only
  when one of the four setup calls has thrown or the status endpoint has answered
  \<^verbatim>\<open>FAILED\<close>, never by a validation of its own.
\<close>

theorem submit_checks_presence_only:
  "(audioBlob st = None \<longrightarrow> uploadAndProcess env st s = s)
   \<and> (audioBlob st = Some b \<longrightarrow>
        (\<exists>rest. trace (uploadAndProcess env st s) = trace s @ CreateVisit (visitData_of st) # rest)
        \<and> language_code (visitData_of st) = language st)
   \<and> (audioBlob st = Some b
        \<and> createVisit env (visitData_of st) = Inr v
        \<and> getUploadUrl env (visit_id v) ''webm'' = Inr u
        \<and> uploadToS3 env (upload_url u) b = Inr x
        \<and> processAudio env (visit_id v) (audio_s3_key u) = Inr y \<longrightarrow>
        uploadAndProcess env st s =
          pollProcessingStatus env (visit_id v) None
            (s\<lparr>voiceState := processing,
               visitId := Some (visit_id v),
               processingStage := ''Starting AI analysis...'',
               trace := trace s @
                 [CreateVisit (visitData_of st), GetUploadUrl (visit_id v) ''webm'',
                  UploadToS3 (upload_url u) b, ProcessAudio (visit_id v) (audio_s3_key u)]\<rparr>))
   \<and> (audioBlob st = Some b \<and> voiceState (uploadAndProcess env st s) = error \<longrightarrow>
        (\<exists>e. createVisit env (visitData_of st) = Inl e)
        \<or> (\<exists>v' e. createVisit env (visitData_of st) = Inr v'
              \<and> getUploadUrl env (visit_id v') ''webm'' = Inl e)
        \<or> (\<exists>v' u' e. createVisit env (visitData_of st) = Inr v'
              \<and> getUploadUrl env (visit_id v') ''webm'' = Inr u'
              \<and> uploadToS3 env (upload_url u') b = Inl e)
        \<or> (\<exists>v' u' e. createVisit env (visitData_of st) = Inr v'
              \<and> getUploadUrl env (visit_id v') ''webm'' = Inr u'
              \<and> processAudio env (visit_id v') (audio_s3_key u') = Inl e)
        \<or> (\<exists>v' k r. createVisit env (visitData_of st) = Inr v'
              \<and> getProcessingStatus env (visit_id v') k = Inr r \<and> status r = ''FAILED''))"
proof (intro conjI impI)
  assume "audioBlob st = None"
  then show "uploadAndProcess env st s = s"
    by (simp add: uploadAndProcess_def)
next
  assume b: "audioBlob st = Some b"
  show "language_code (visitData_of st) = language st"
    by (simp add: visitData_of_def)
  show "\<exists>rest. trace (uploadAndProcess env st s) = trace s @ CreateVisit (visitData_of st) # rest"
  proof (cases "createVisit env (visitData_of st)")
    case (Inl e)
    then show ?thesis
      by (cases e) (simp_all add: uploadAndProcess_def Let_def b catchUpload_def)
  next
    case v: (Inr v)
    show ?thesis
    proof (cases "getUploadUrl env (visit_id v) ''webm''")
      case (Inl e)
      then show ?thesis
        by (cases e) (simp_all add: uploadAndProcess_def Let_def b v catchUpload_def)
    next
      case u: (Inr u)
      show ?thesis
      proof (cases "uploadToS3 env (upload_url u) b")
        case (Inl e)
        then show ?thesis
          by (cases e) (simp_all add: uploadAndProcess_def Let_def b v u catchUpload_def)
      next
        case up: (Inr x)
        show ?thesis
        proof (cases "processAudio env (visit_id v) (audio_s3_key u)")
          case (Inl e)
          then show ?thesis
            by (cases e) (simp_all add: uploadAndProcess_def Let_def b v u up catchUpload_def)
        next
          case pr: (Inr y)
          obtain evs where "\<And>s'. trace (pollLoop env (visit_id v) 30 0 s') = trace s' @ evs"
            using pollLoop_calls_independent by blast
          then show ?thesis
            by (simp add: uploadAndProcess_accepted[OF b v u up pr] pollProcessingStatus_def
                maxAttempts_def)
        qed
      qed
    qed
  qed
next
  assume "audioBlob st = Some b
        \<and> createVisit env (visitData_of st) = Inr v
        \<and> getUploadUrl env (visit_id v) ''webm'' = Inr u
        \<and> uploadToS3 env (upload_url u) b = Inr x
        \<and> processAudio env (visit_id v) (audio_s3_key u) = Inr y"
  then show "uploadAndProcess env st s =
          pollProcessingStatus env (visit_id v) None
            (s\<lparr>voiceState := processing,
               visitId := Some (visit_id v),
               processingStage := ''Starting AI analysis...'',
               trace := trace s @
                 [CreateVisit (visitData_of st), GetUploadUrl (visit_id v) ''webm'',
                  UploadToS3 (upload_url u) b, ProcessAudio (visit_id v) (audio_s3_key u)]\<rparr>)"
    by (simp add: uploadAndProcess_accepted)
next
  assume a: "audioBlob st = Some b \<and> voiceState (uploadAndProcess env st s) = error"
  then have b: "audioBlob st = Some b" and err: "voiceState (uploadAndProcess env st s) = error"
    by simp_all
  show "(\<exists>e. createVisit env (visitData_of st) = Inl e)
        \<or> (\<exists>v' e. createVisit env (visitData_of st) = Inr v'
              \<and> getUploadUrl env (visit_id v') ''webm'' = Inl e)
        \<or> (\<exists>v' u' e. createVisit env (visitData_of st) = Inr v'
              \<and> getUploadUrl env (visit_id v') ''webm'' = Inr u'
              \<and> uploadToS3 env (upload_url u') b = Inl e)
        \<or> (\<exists>v' u' e. createVisit env (visitData_of st) = Inr v'
              \<and> getUploadUrl env (visit_id v') ''webm'' = Inr u'
              \<and> processAudio env (visit_id v') (audio_s3_key u') = Inl e)
        \<or> (\<exists>v' k r. createVisit env (visitData_of st) = Inr v'
              \<and> getProcessingStatus env (visit_id v') k = Inr r \<and> status r = ''FAILED'')"
  proof (cases "createVisit env (visitData_of st)")
    case (Inl e)
    then show ?thesis by blast
  next
    case v: (Inr v')
    show ?thesis
    proof (cases "getUploadUrl env (visit_id v') ''webm''")
      case (Inl e)
      with v show ?thesis by blast
    next
      case u: (Inr u')
      show ?thesis
      proof (cases "uploadToS3 env (upload_url u') b")
        case (Inl e)
        with v u show ?thesis by blast
      next
        case up: (Inr x')
        show ?thesis
        proof (cases "processAudio env (visit_id v') (audio_s3_key u')")
          case (Inl e)
          with v u show ?thesis by blast
        next
          case pr: (Inr y')
          from err have "voiceState (pollLoop env (visit_id v') 30 0
              (s\<lparr>voiceState := processing,
                 visitId := Some (visit_id v'),
                 processingStage := ''Starting AI analysis...'',
                 trace := trace s @
                   [CreateVisit (visitData_of st), GetUploadUrl (visit_id v') ''webm'',
                    UploadToS3 (upload_url u') b, ProcessAudio (visit_id v') (audio_s3_key u')]\<rparr>)) = error"
            by (simp add: uploadAndProcess_accepted[OF b v u up pr] pollProcessingStatus_def
                maxAttempts_def)
          from pollLoop_error_only_by_FAILED[OF this] v show ?thesis
            by blast
        qed
      qed
    qed
  qed
qed

text \<open>
  A backend that accepts everything, a recording of no bytes, the language \<^verbatim>\<open>fr-FR\<close>:
  without the recording nothing happens; with it the visit is created under \<^verbatim>\<open>fr-FR\<close>
  and the submission is the polling of the visit.
\<close>

theorem submit_checks_presence_only_witness:
  "uploadAndProcess (okApi (script [] (answer ''COMPLETED''))) ((recorded [] ''fr-FR'')\<lparr>audioBlob := None\<rparr>) initial
     = initial
   \<and> (\<exists>rest. trace (uploadAndProcess (okApi (script [] (answer ''COMPLETED''))) (recorded [] ''fr-FR'') initial)
         = CreateVisit (visitData_of (recorded [] ''fr-FR'')) # rest)
   \<and> language_code (visitData_of (recorded [] ''fr-FR'')) = ''fr-FR''
   \<and> uploadAndProcess (okApi (script [] (answer ''COMPLETED''))) (recorded [] ''fr-FR'') initial
       = pollProcessingStatus (okApi (script [] (answer ''COMPLETED''))) ''visit-1'' None
           (initial\<lparr>voiceState := processing,
              visitId := Some ''visit-1'',
              processingStage := ''Starting AI analysis...'',
              trace :=
                [CreateVisit (visitData_of (recorded [] ''fr-FR'')), GetUploadUrl ''visit-1'' ''webm'',
                 UploadToS3 ''https://bucket/put'' [], ProcessAudio ''visit-1'' ''audio/visit-1.webm'']\<rparr>)
   \<and> voiceState (uploadAndProcess (okApi (script [] (answer ''FAILED''))) (recorded [] ''fr-FR'') initial)
       = error
   \<and> (\<exists>k r. getProcessingStatus (okApi (script [] (answer ''FAILED''))) ''visit-1'' k = Inr r
         \<and> status r = ''FAILED'')"
proof -
  let ?env = "okApi (script [] (answer ''COMPLETED''))"
  let ?bad = "okApi (script [] (answer ''FAILED''))"
  let ?st = "recorded [] ''fr-FR''"
  let ?v = "\<lparr>visit_id = ''visit-1''\<rparr>"
  let ?u = "\<lparr>upload_url = ''https://bucket/put'', audio_s3_key = ''audio/visit-1.webm''\<rparr>"
  have none: "audioBlob (?st\<lparr>audioBlob := None\<rparr>) = None"
    by simp
  have some: "audioBlob ?st = Some []"
    and lang: "language ?st = ''fr-FR''"
    by (simp_all add: recorded_def)
  have z: "trace initial = []"
    by (simp add: initial_def)
  have ok: "createVisit ?env (visitData_of ?st) = Inr ?v"
    "getUploadUrl ?env (visit_id ?v) ''webm'' = Inr ?u"
    "uploadToS3 ?env (upload_url ?u) [] = Inr ()"
    "processAudio ?env (visit_id ?v) (audio_s3_key ?u) = Inr ()"
    by (simp_all add: okApi_def)
  have bad: "\<And>d. createVisit ?bad d = Inr ?v"
    "\<And>a c. getUploadUrl ?bad a c \<noteq> Inl e"
    "\<And>a c. uploadToS3 ?bad a c \<noteq> Inl e"
    "\<And>a c. processAudio ?bad a c \<noteq> Inl e" for e
    by (simp_all add: okApi_def)
  have err: "voiceState (uploadAndProcess ?bad ?st initial) = error"
    by code_simp
  from submit_checks_presence_only[where st="?st\<lparr>audioBlob := None\<rparr>" and env="?env" and s=initial
      and b="[]" and v="?v" and u="?u" and x="()" and y="()"] none
  have "uploadAndProcess ?env (?st\<lparr>audioBlob := None\<rparr>) initial = initial"
    by blast
  moreover from submit_checks_presence_only[where st="?st" and env="?env" and s=initial
      and b="[]" and v="?v" and u="?u" and x="()" and y="()"] some ok
  have "(\<exists>rest. trace (uploadAndProcess ?env ?st initial)
            = trace initial @ CreateVisit (visitData_of ?st) # rest)"
    and "language_code (visitData_of ?st) = language ?st"
    and "uploadAndProcess ?env ?st initial =
          pollProcessingStatus ?env (visit_id ?v) None
            (initial\<lparr>voiceState := processing,
               visitId := Some (visit_id ?v),
               processingStage := ''Starting AI analysis...'',
               trace := trace initial @
                 [CreateVisit (visitData_of ?st), GetUploadUrl (visit_id ?v) ''webm'',
                  UploadToS3 (upload_url ?u) [], ProcessAudio (visit_id ?v) (audio_s3_key ?u)]\<rparr>)"
    by blast+
  moreover from submit_checks_presence_only[where st="?st" and env="?bad" and s=initial
      and b="[]" and v="?v" and u="?u" and x="()" and y="()"] some err
  have "(\<exists>e. createVisit ?bad (visitData_of ?st) = Inl e)
        \<or> (\<exists>v' e. createVisit ?bad (visitData_of ?st) = Inr v'
              \<and> getUploadUrl ?bad (visit_id v') ''webm'' = Inl e)
        \<or> (\<exists>v' u' e. createVisit ?bad (visitData_of ?st) = Inr v'
              \<and> getUploadUrl ?bad (visit_id v') ''webm'' = Inr u'
              \<and> uploadToS3 ?bad (upload_url u') [] = Inl e)
        \<or> (\<exists>v' u' e. createVisit ?bad (visitData_of ?st) = Inr v'
              \<and> getUploadUrl ?bad (visit_id v') ''webm'' = Inr u'
              \<and> processAudio ?bad (visit_id v') (audio_s3_key u') = Inl e)
        \<or> (\<exists>v' k r. createVisit ?bad (visitData_of ?st) = Inr v'
              \<and> getProcessingStatus ?bad (visit_id v') k = Inr r \<and> status r = ''FAILED'')"
    by blast
  then have "\<exists>v' k r. createVisit ?bad (visitData_of ?st) = Inr v'
          \<and> getProcessingStatus ?bad (visit_id v') k = Inr r \<and> status r = ''FAILED''"
    using bad by auto
  then have "\<exists>k r. getProcessingStatus ?bad ''visit-1'' k = Inr r \<and> status r = ''FAILED''"
    using bad(1) by auto
  ultimately show ?thesis
    using err unfolding z lang by simp
qed

subsection \<open>The level meter\<close>

lemma foldl_plus_sum_list: "foldl (+) a xs = a + sum_list xs" for a :: rat
  by (induction xs arbitrary: a) (simp_all add: add.assoc)

lemma reduce_plus:
  "xs \<noteq> [] \<Longrightarrow> reduce (+) xs = Inr (sum_list xs)" for xs :: "rat list"
  by (cases xs) (simp_all add: foldl_plus_sum_list)

lemma sum_list_bytes:
  "sum_list (map (\<lambda>b. rat_of_nat (unat b)) bins) = rat_of_nat (sum_list (map unat bins))"
  for bins :: blob
  by (induction bins) simp_all

lemma updateLevel_value:
  assumes "bins \<noteq> []"
  shows "updateLevel (Some bins) audioLevel = Inr (min 100 (arithmetic_mean (map unat bins) * 1.5))"
proof -
  have "reduce (+) (map (\<lambda>b. rat_of_nat (unat b)) bins) = Inr (rat_of_nat (sum_list (map unat bins)))"
    using assms reduce_plus[of "map (\<lambda>b. rat_of_nat (unat b)) bins"]
    by (simp only: sum_list_bytes map_is_Nil_conv simp_thms)
  then show ?thesis
    unfolding updateLevel_def arithmetic_mean_def
    by (simp only: option.case sum.case Let_def length_map)
qed

lemma arithmetic_mean_nonneg: "0 \<le> arithmetic_mean xs"
  by (simp add: arithmetic_mean_def)

lemma sum_bytes_le: "sum_list (map unat bins) \<le> 255 * length bins" for bins :: blob
proof (induction bins)
  case Nil
  show ?case by simp
next
  case (Cons b bins)
  have "unat b < 2 ^ 8"
    using unsigned_less[of b] by simp
  then have "unat b \<le> 255" by simp
  with Cons show ?case by simp
qed

text \<open>
  Claim C8. On a sample cycle, with \<^verbatim>\<open>dataArray\<close> holding the \<open>frequencyBinCount\<close> bin
  magnitudes, the level that is published is their arithmetic mean times 1.5, clamped to
  the interval from 0 to 100. The code takes the minimum with 100 only; the lower bound
  holds since a mean of bytes is not negative.
\<close>

theorem updateLevel_spec_level:
  assumes "length bins = frequencyBinCount"
  shows "updateLevel (Some bins) audioLevel = Inr (spec_level bins)
     \<and> spec_level bins = min 100 (arithmetic_mean (map unat bins) * 1.5)
     \<and> 0 \<le> spec_level bins \<and> spec_level bins \<le> 100"
proof -
  from assms have ne: "bins \<noteq> []"
    by (auto simp: frequencyBinCount_def fftSize_def)
  have "0 \<le> arithmetic_mean (map unat bins) * 1.5"
    using arithmetic_mean_nonneg[of "map unat bins"] by simp
  then have eq: "spec_level bins = min 100 (arithmetic_mean (map unat bins) * 1.5)"
    by (simp add: spec_level_def clamp_def)
  show ?thesis
    using eq updateLevel_value[OF ne] \<open>0 \<le> arithmetic_mean (map unat bins) * 1.5\<close> by simp
qed

theorem updateLevel_spec_level_witness:
  "updateLevel (Some (replicate 128 64)) 0 = Inr 96
   \<and> updateLevel (Some (replicate 128 255)) 0 = Inr 100"
proof -
  have len: "length (replicate 128 w) = frequencyBinCount" for w :: "8 word"
    by (simp add: frequencyBinCount_def fftSize_def)
  have s: "sum_list (replicate 128 x) = 128 * x" for x :: nat
    by (simp add: sum_list_replicate)
  have "spec_level (replicate 128 64) = 96" "spec_level (replicate 128 255) = 100"
    by (simp_all add: spec_level_def clamp_def arithmetic_mean_def s)
  with updateLevel_spec_level[OF len, of 64 0] updateLevel_spec_level[OF len, of 255 0] show ?thesis
    by simp
qed

text \<open>
  The intermediate values for 128 bins are multiples of \<open>1 / 128\<close> and \<open>1 / 256\<close> with
  numerators below \<open>2 ^ 17\<close>: IEEE doubles hold them exactly.
\<close>

lemma updateLevel_dyadic:
  assumes "length bins = frequencyBinCount"
  shows "\<exists>k n. k \<le> 32640 \<and> n \<le> 25600
     \<and> arithmetic_mean (map unat bins) = rat_of_nat k / 128
     \<and> arithmetic_mean (map unat bins) * 1.5 = rat_of_nat (3 * k) / 256
     \<and> spec_level bins = rat_of_nat n / 256"
proof -
  from assms have len: "length bins = 128"
    by (simp add: frequencyBinCount_def fftSize_def)
  let ?k = "sum_list (map unat bins)"
  have k: "?k \<le> 32640"
    using sum_bytes_le[of bins] len by simp
  have mean: "arithmetic_mean (map unat bins) = rat_of_nat ?k / 128"
    by (simp add: arithmetic_mean_def len)
  have scaled: "arithmetic_mean (map unat bins) * 1.5 = rat_of_nat (3 * ?k) / 256"
    by (simp add: mean)
  have level: "spec_level bins = rat_of_nat (min 25600 (3 * ?k)) / 256"
    unfolding spec_level_def clamp_def scaled
    by (simp add: min_def max_def field_simps)
  show ?thesis
    using k mean scaled level by (intro exI[of _ ?k] exI[of _ "min 25600 (3 * ?k)"]) simp
qed

subsection \<open>The form variant makes the same calls and ends in the same outcome\<close>

declare pollLoop_form.simps [simp del]

lemma trace_emit_form [simp]: "trace_form (emit_form c t) = trace_form t @ [c]"
  by (simp add: emit_form_def)

lemma emit_form_fields [simp]:
  "uploading (emit_form c t) = uploading t"
  "processingStatus (emit_form c t) = processingStatus t"
  by (simp_all add: emit_form_def)

lemma pollLoop_form_exhausted:
  "\<not> int i < retries \<Longrightarrow>
   pollLoop_form env vid retries i t =
     t\<lparr>processingStatus :=
         ''Processing taking longer than expected. The doctor will be notified.'',
       uploading := False\<rparr>"
  by (subst pollLoop_form.simps) simp

lemma pollLoop_form_thrown:
  "int i < retries \<Longrightarrow> getProcessingStatus env vid i = Inl e \<Longrightarrow>
   pollLoop_form env vid retries i t =
     pollLoop_form env vid retries (Suc i)
       (emit_form (ConsoleError ''Error polling status:'' e) (emit_form (GetProcessingStatus vid) t))"
  by (subst pollLoop_form.simps) simp

lemma pollLoop_form_completed:
  "int i < retries \<Longrightarrow> getProcessingStatus env vid i = Inr r \<Longrightarrow> status r = ''COMPLETED'' \<Longrightarrow>
   pollLoop_form env vid retries i t =
     emit_form (SetTimeout 3000)
       ((emit_form (GetProcessingStatus vid) t)
          \<lparr>processingStatus := check_mark @ '' Complete! Your doctor will review this shortly.''\<rparr>)"
  by (subst pollLoop_form.simps) simp

lemma pollLoop_form_failed:
  "int i < retries \<Longrightarrow> getProcessingStatus env vid i = Inr r \<Longrightarrow> status r = ''FAILED'' \<Longrightarrow>
   pollLoop_form env vid retries i t =
     (emit_form (GetProcessingStatus vid) t)
       \<lparr>processingStatus := cross_mark @ '' Processing failed. Please try again.'',
        uploading := False\<rparr>"
  by (subst pollLoop_form.simps) simp

lemma pollLoop_form_continue:
  "int i < retries \<Longrightarrow> getProcessingStatus env vid i = Inr r \<Longrightarrow> \<not> terminalStatus (status r) \<Longrightarrow>
   pollLoop_form env vid retries i t =
     pollLoop_form env vid retries (Suc i)
       (emit_form (Sleep 2000)
          ((emit_form (GetProcessingStatus vid) t)
             \<lparr>processingStatus := statusAfter (status r) (processingStatus t)\<rparr>))"
  by (subst pollLoop_form.simps) (simp add: terminalStatus_def statusAfter_def emit_form_def)

lemma pollLoop_form_simulates:
  "trace_form t = map retime (trace s) \<Longrightarrow>
   trace_form (pollLoop_form env vid retries i t) = map retime (trace (pollLoop env vid retries i s))
   \<and> map_option kind (outcome_of_form (pollLoop_form env vid retries i t))
       = map_option kind (outcome_of (pollLoop env vid retries i s))"
proof (induction "nat (retries - int i)" arbitrary: i s t)
  case 0
  then have "\<not> int i < retries" by simp
  then show ?case
    using 0 by (simp add: pollLoop_form_exhausted pollLoop_exhausted outcome_of_def
        outcome_of_form_def check_mark_def cross_mark_def)
next
  case (Suc m)
  then have less: "int i < retries" and m: "m = nat (retries - int (Suc i))" by simp_all
  note IH = Suc.hyps(1)[OF m]
  note start = Suc.prems
  show ?case
  proof (cases "getProcessingStatus env vid i")
    case (Inl e)
    show ?thesis
      unfolding pollLoop_form_thrown[OF less Inl] pollLoop_thrown[OF less Inl]
      by (rule IH) (simp add: start)
  next
    case (Inr r)
    show ?thesis
    proof (cases "terminalStatus (status r)")
      case True
      then consider "status r = ''COMPLETED''" | "status r = ''FAILED''"
        by (auto simp: terminalStatus_def)
      then show ?thesis
      proof cases
        case 1
        show ?thesis
          using start
          by (simp add: pollLoop_form_completed[OF less Inr 1] pollLoop_completed[OF less Inr 1]
              outcome_of_def outcome_of_form_def)
      next
        case 2
        show ?thesis
          using start
          by (simp add: pollLoop_form_failed[OF less Inr 2] pollLoop_failed[OF less Inr 2]
              outcome_of_def outcome_of_form_def check_mark_def cross_mark_def)
      qed
    next
      case False
      show ?thesis
        unfolding pollLoop_form_continue[OF less Inr False] pollLoop_continue[OF less Inr False]
        by (rule IH) (simp add: start)
    qed
  qed
qed

text \<open>
  The two handlers log alike. On a value that is neither \<^verbatim>\<open>null\<close> nor \<^verbatim>\<open>undefined\<close> both
  show the failure; on \<^verbatim>\<open>null\<close> and \<^verbatim>\<open>undefined\<close> both reject, the orb variant with the
  error state set, the form variant with its state as it was.
\<close>

lemma catchUpload_form_simulates:
  "trace_form t = map retime (trace s) \<Longrightarrow>
   trace_form (catchUpload_form e t) = map retime (trace (catchUpload e s))
   \<and> (e \<noteq> Nullish \<longrightarrow>
        map_option kind (outcome_of_form (catchUpload_form e t))
          = map_option kind (outcome_of (catchUpload e s)))"
  by (cases e)
     (simp_all add: catchUpload_form_def catchUpload_def outcome_of_def outcome_of_form_def
        check_mark_def cross_mark_def)

lemma uploadAndProcess_form_simulates:
  assumes "trace_form t = map retime (trace s)"
  shows "trace_form (uploadAndProcess_form env st t) = map retime (trace (uploadAndProcess env st s))
   \<and> (audioBlob st \<noteq> None
        \<and> (\<forall>d. createVisit env d \<noteq> Inl Nullish)
        \<and> (\<forall>a c. getUploadUrl env a c \<noteq> Inl Nullish)
        \<and> (\<forall>a c. uploadToS3 env a c \<noteq> Inl Nullish)
        \<and> (\<forall>a c. processAudio env a c \<noteq> Inl Nullish) \<longrightarrow>
        map_option kind (outcome_of_form (uploadAndProcess_form env st t))
          = map_option kind (outcome_of (uploadAndProcess env st s)))"
proof (cases "audioBlob st")
  case None
  then show ?thesis
    using assms by (simp add: uploadAndProcess_form_def uploadAndProcess_def)
next
  case b: (Some b)
  show ?thesis
  proof (cases "createVisit env (visitData_of st)")
    case (Inl e)
    then show ?thesis
      using assms b
      by (cases e)
         (auto simp add: uploadAndProcess_form_def uploadAndProcess_def Let_def
            catchUpload_form_simulates)
  next
    case v: (Inr v)
    show ?thesis
    proof (cases "getUploadUrl env (visit_id v) ''webm''")
      case (Inl e)
      then show ?thesis
        using assms b v
        by (cases e)
           (auto simp add: uploadAndProcess_form_def uploadAndProcess_def Let_def
              catchUpload_form_simulates)
    next
      case u: (Inr u)
      show ?thesis
      proof (cases "uploadToS3 env (upload_url u) b")
        case (Inl e)
        then show ?thesis
          using assms b v u
          by (cases e)
             (auto simp add: uploadAndProcess_form_def uploadAndProcess_def Let_def
                catchUpload_form_simulates)
      next
        case up: (Inr x)
        show ?thesis
        proof (cases "processAudio env (visit_id v) (audio_s3_key u)")
          case (Inl e)
          then show ?thesis
            using assms b v u up
            by (cases e)
               (auto simp add: uploadAndProcess_form_def uploadAndProcess_def Let_def
                  catchUpload_form_simulates)
        next
          case pr: (Inr y)
          show ?thesis
            using assms b v u up pr
            by (simp add: uploadAndProcess_form_def uploadAndProcess_def Let_def
                pollProcessingStatus_form_def pollProcessingStatus_def pollLoop_form_simulates)
        qed
      qed
    qed
  qed
qed

lemma counts_retime [simp]:
  "statusQueries (map retime tr) = statusQueries tr"
  "waits (map retime tr) = waits tr"
  "backendCalls (map retime tr) = backendCalls tr"
proof -
  have "isStatusQuery (retime c) = isStatusQuery c" "isSleep (retime c) = isSleep c"
    "isBackendCall (retime c) = isBackendCall c" for c
    by (cases c; simp)+
  then show "statusQueries (map retime tr) = statusQueries tr"
    "waits (map retime tr) = waits tr"
    "backendCalls (map retime tr) = backendCalls tr"
    by (simp_all add: statusQueries_def waits_def backendCalls_def filter_map comp_def)
qed

end
